theory Spec2Isabelle
  imports Complex_Main "HOL-Library.Product_Lexorder"
begin

section \<open>Python values used by app.py\<close>

text \<open>
  The application is one Flask module, \<^verbatim>\<open>app.py\<close>. Its view functions are embedded
  below as functions from the request and the database state to the new database state,
  the flashed messages and the response.

  Conventions of the embedding:
  \<^item> a Python \<^verbatim>\<open>str\<close> is a \<open>string\<close>; a \<open>char\<close> is read as the code point of the same
    number, so the strings of the model are the Python strings over U+0000..U+00FF;
  \<^item> a Python \<^verbatim>\<open>int\<close> is an \<open>int\<close>;
  \<^item> a Python \<^verbatim>\<open>float\<close> (the columns \<^verbatim>\<open>db.Float\<close>) is the \<open>real\<close> it denotes:
    sums and comparisons are exact, and rounding, infinities and NaN are outside the model;
  \<^item> a \<^verbatim>\<open>datetime.date\<close> is the triple (year, month, day); triples are ordered
    lexicographically, as dates are;
  \<^item> an exception is a value of \<open>exn\<close>, and a function that can raise returns
    \<open>exn + 'a\<close> with \<open>Inl\<close> the exception.
\<close>

datatype exn =
    ValueError string
  | BadRequestKeyError string
  | IntegrityError string

text \<open>
  \<open>ValueError\<close> carries the message. The messages the application itself raises are
  exact; a message raised by the standard library carries the fixed part of its text only.
  \<open>exn_str\<close> is \<^verbatim>\<open>str(e)\<close>, used by the \<^verbatim>\<open>flash(f"...: {e}")\<close> calls.
\<close>

fun exn_str :: "exn \<Rightarrow> string" where
  "exn_str (ValueError m) = m"
| "exn_str (BadRequestKeyError k) = ''400 Bad Request: The browser (or proxy) sent a request that this server could not understand.''"
| "exn_str (IntegrityError m) = m"

definition bind_exn :: "exn + 'a \<Rightarrow> ('a \<Rightarrow> exn + 'b) \<Rightarrow> exn + 'b" where
  "bind_exn r f = (case r of Inl e \<Rightarrow> Inl e | Inr v \<Rightarrow> f v)"

subsection \<open>Strings: strip, split, int, decimal formatting\<close>

text \<open>\<^verbatim>\<open>str.isspace\<close> on one code point below U+0100.\<close>

definition py_isspace :: "char \<Rightarrow> bool" where
  "py_isspace c = ((of_char c :: nat) \<in> {9, 10, 11, 12, 13, 28, 29, 30, 31, 32, 133, 160})"

text \<open>\<^verbatim>\<open>s.strip()\<close>: leading and trailing whitespace removed.\<close>

definition py_strip :: "string \<Rightarrow> string" where
  "py_strip s = rev (dropWhile py_isspace (rev (dropWhile py_isspace s)))"

text \<open>\<^verbatim>\<open>s.split(sep)\<close> for a separator of one character: never the empty list.\<close>

fun py_split :: "char \<Rightarrow> string \<Rightarrow> string list" where
  "py_split sep [] = [[]]"
| "py_split sep (c # cs) =
     (if c = sep then [] # py_split sep cs
      else (case py_split sep cs of
              [] \<Rightarrow> [[c]]
            | p # ps \<Rightarrow> (c # p) # ps))"

definition isdigit :: "char \<Rightarrow> bool" where
  "isdigit c = (48 \<le> (of_char c :: nat) \<and> (of_char c :: nat) \<le> 57)"

definition digit_val :: "char \<Rightarrow> int" where
  "digit_val c = int (of_char c) - 48"

definition digit_char :: "nat \<Rightarrow> char" where
  "digit_char n = char_of (48 + n)"

text \<open>
  The digits of a decimal literal after its first digit: digits, with single underscores
  allowed between two digits (PEP 515).
\<close>

fun dec_tail :: "int \<Rightarrow> string \<Rightarrow> int option" where
  "dec_tail acc [] = Some acc"
| "dec_tail acc (c # cs) =
     (if isdigit c then dec_tail (acc * 10 + digit_val c) cs
      else if c = CHR ''_'' then
        (case cs of
           [] \<Rightarrow> None
         | d # ds \<Rightarrow> if isdigit d then dec_tail (acc * 10 + digit_val d) ds else None)
      else None)"

definition dec_digits :: "string \<Rightarrow> int option" where
  "dec_digits s =
     (case s of
        [] \<Rightarrow> None
      | c # cs \<Rightarrow> if isdigit c then dec_tail (digit_val c) cs else None)"

text \<open>
  \<^verbatim>\<open>int(s)\<close> for a string, base 10: whitespace around the literal is ignored, one sign
  is allowed, anything else raises ValueError. (The interpreter's optional limit on the
  number of digits is not modelled.)
\<close>

definition py_int :: "string \<Rightarrow> exn + int" where
  "py_int s =
     (let t = py_strip s;
          body = (case t of
                    [] \<Rightarrow> None
                  | c # cs \<Rightarrow>
                      if c = CHR ''-'' then map_option uminus (dec_digits cs)
                      else if c = CHR ''+'' then dec_digits cs
                      else dec_digits t)
      in case body of
           None \<Rightarrow> Inl (ValueError ''invalid literal for int() with base 10'')
         | Some n \<Rightarrow> Inr n)"

text \<open>\<^verbatim>\<open>str(n)\<close> for a natural number.\<close>

function str_nat :: "nat \<Rightarrow> string" where
  "str_nat n = (if n < 10 then [digit_char n] else str_nat (n div 10) @ [digit_char (n mod 10)])"
  by pat_completeness auto
termination
  by (relation "measure id") auto

declare str_nat.simps [simp del]

text \<open>\<^verbatim>\<open>"%0wd" % n\<close> for a natural number \<open>n\<close>: zero-padded to width \<open>w\<close>.\<close>

definition zpad :: "nat \<Rightarrow> nat \<Rightarrow> string" where
  "zpad w n = replicate (w - length (str_nat n)) CHR ''0'' @ str_nat n"

text \<open>
  \<^verbatim>\<open>f"{x:.2f}"\<close>: two fraction digits, the value rounded half to even, the sign kept
  when the value is negative.
\<close>

definition round_half_even :: "real \<Rightarrow> int" where
  "round_half_even a =
     (let f = \<lfloor>a\<rfloor>; r = a - of_int f
      in if r < 1 / 2 then f else if 1 / 2 < r then f + 1 else if even f then f else f + 1)"

definition fmt_2f :: "real \<Rightarrow> string" where
  "fmt_2f x =
     (let n = nat (round_half_even (\<bar>x\<bar> * 100))
      in (if x < 0 then ''-'' else '''') @ str_nat (n div 100) @ ''.''
         @ [digit_char (n mod 100 div 10), digit_char (n mod 10)])"

subsection \<open>Dates\<close>

type_synonym date = "int \<times> int \<times> int"

definition year :: "date \<Rightarrow> int" where
  "year d = fst d"

definition month :: "date \<Rightarrow> int" where
  "month d = fst (snd d)"

definition day :: "date \<Rightarrow> int" where
  "day d = snd (snd d)"

text \<open>\<^verbatim>\<open>datetime._is_leap\<close> and \<^verbatim>\<open>datetime._days_in_month\<close>.\<close>

definition is_leap :: "int \<Rightarrow> bool" where
  "is_leap y = (y mod 4 = 0 \<and> (y mod 100 \<noteq> 0 \<or> y mod 400 = 0))"

definition DAYS_IN_MONTH :: "int list" where
  "DAYS_IN_MONTH = [-1, 31, 28, 31, 30, 31, 30, 31, 31, 30, 31, 30, 31]"

definition days_in_month :: "int \<Rightarrow> int \<Rightarrow> int" where
  "days_in_month y m = (if m = 2 \<and> is_leap y then 29 else DAYS_IN_MONTH ! nat m)"

text \<open>
  The constructor \<^verbatim>\<open>date(year, month, day)\<close> with its range checks
  (\<^verbatim>\<open>MINYEAR = 1\<close>, \<^verbatim>\<open>MAXYEAR = 9999\<close>).
\<close>

definition mk_date :: "int \<Rightarrow> int \<Rightarrow> int \<Rightarrow> exn + date" where
  "mk_date y m d =
     (if \<not> (1 \<le> y \<and> y \<le> 9999) then Inl (ValueError ''year is out of range'')
      else if \<not> (1 \<le> m \<and> m \<le> 12) then Inl (ValueError ''month must be in 1..12'')
      else if \<not> (1 \<le> d \<and> d \<le> days_in_month y m)
        then Inl (ValueError ''day is out of range for month'')
      else Inr (y, m, d))"

definition valid_date :: "date \<Rightarrow> bool" where
  "valid_date d = (mk_date (year d) (month d) (day d) = Inr d)"

text \<open>
  \<^verbatim>\<open>calendar.isleap\<close>, \<^verbatim>\<open>calendar.mdays\<close> and the second component of
  \<^verbatim>\<open>calendar.monthrange(year, month)\<close>, the number of days of the month. (The first
  component, the weekday of the first day, is not used by the application.)
\<close>

definition isleap :: "int \<Rightarrow> bool" where
  "isleap y = (y mod 4 = 0 \<and> (y mod 100 \<noteq> 0 \<or> y mod 400 = 0))"

definition mdays :: "int list" where
  "mdays = [0, 31, 28, 31, 30, 31, 30, 31, 31, 30, 31, 30, 31]"

definition monthrange_ndays :: "int \<Rightarrow> int \<Rightarrow> exn + int" where
  "monthrange_ndays y m =
     (if \<not> (1 \<le> m \<and> m \<le> 12) then Inl (ValueError ''bad month number; must be 1-12'')
      else Inr (mdays ! nat m + (if m = 2 \<and> isleap y then 1 else 0)))"

text \<open>\<^verbatim>\<open>d.isoformat()\<close>, which is also \<^verbatim>\<open>str(d)\<close>, and \<^verbatim>\<open>d.strftime("%Y-%m")\<close>.\<close>

definition isoformat :: "date \<Rightarrow> string" where
  "isoformat d =
     zpad 4 (nat (year d)) @ ''-'' @ zpad 2 (nat (month d)) @ ''-'' @ zpad 2 (nat (day d))"

definition strftime_Y_m :: "date \<Rightarrow> string" where
  "strftime_Y_m d = zpad 4 (nat (year d)) @ ''-'' @ zpad 2 (nat (month d))"

section \<open>Helpers of app.py\<close>

text \<open>
  \<^verbatim>\<open>
  def month_bounds(yyyy_mm: str):
      y, m = map(int, yyyy_mm.split("-"))
      start = date(y, m, 1)
      end = date(y, m, monthrange(y, m)[1])
      return start, end
  \<close>
  The unpacking draws the parts one by one through \<^verbatim>\<open>int\<close>: with one part it fails
  for want of a second value, with three or more it converts the third part before it
  fails for having too many.
\<close>

definition unpack2_int :: "string list \<Rightarrow> exn + (int \<times> int)" where
  "unpack2_int parts =
     (case parts of
        [] \<Rightarrow> Inl (ValueError ''not enough values to unpack'')
      | a # r1 \<Rightarrow>
          bind_exn (py_int a) (\<lambda>y.
            case r1 of
              [] \<Rightarrow> Inl (ValueError ''not enough values to unpack'')
            | b # r2 \<Rightarrow>
                bind_exn (py_int b) (\<lambda>m.
                  case r2 of
                    [] \<Rightarrow> Inr (y, m)
                  | c # r3 \<Rightarrow>
                      bind_exn (py_int c) (\<lambda>_.
                        Inl (ValueError ''too many values to unpack'')))))"

definition month_bounds :: "string \<Rightarrow> exn + (date \<times> date)" where
  "month_bounds yyyy_mm =
     bind_exn (unpack2_int (py_split CHR ''-'' yyyy_mm)) (\<lambda>(y, m).
       bind_exn (mk_date y m 1) (\<lambda>start.
         bind_exn (monthrange_ndays y m) (\<lambda>n.
           bind_exn (mk_date y m n) (\<lambda>end.
             Inr (start, end)))))"

text \<open>
  \<^verbatim>\<open>
  def parse_date(value: str) -> date:
      return datetime.strptime(value, "%Y-%m-%d").date()
  \<close>
  \<^verbatim>\<open>strptime\<close> matches the value against the regular expression of the format,
  \<^verbatim>\<open>(\d\d\d\d)-(1[0-2]|0[1-9]|[1-9])-(3[0-1]|[1-2]\d|0[1-9]|[1-9]| [1-9])\<close>, from the
  start of the value, refuses a value with characters left over, and builds the date from
  the three numbers. The alternatives of a group are tried in order; no later alternative
  can succeed where an earlier one has matched, so each group is read deterministically.
\<close>

definition in_chars :: "char \<Rightarrow> string \<Rightarrow> bool" where
  "in_chars c cs = (c \<in> set cs)"

definition match_Y :: "string \<Rightarrow> (int \<times> string) option" where
  "match_Y s =
     (case s of
        a # b # c # d # r \<Rightarrow>
          if isdigit a \<and> isdigit b \<and> isdigit c \<and> isdigit d
          then Some (((digit_val a * 10 + digit_val b) * 10 + digit_val c) * 10 + digit_val d, r)
          else None
      | _ \<Rightarrow> None)"

definition match_m :: "string \<Rightarrow> (int \<times> string) option" where
  "match_m s =
     (case s of
        [] \<Rightarrow> None
      | a # r \<Rightarrow>
          (case r of
             b # r' \<Rightarrow>
               if a = CHR ''1'' \<and> in_chars b ''012'' then Some (10 + digit_val b, r')
               else if a = CHR ''0'' \<and> in_chars b ''123456789'' then Some (digit_val b, r')
               else if in_chars a ''123456789'' then Some (digit_val a, r)
               else None
           | [] \<Rightarrow> if in_chars a ''123456789'' then Some (digit_val a, r) else None))"

definition match_d :: "string \<Rightarrow> (int \<times> string) option" where
  "match_d s =
     (case s of
        [] \<Rightarrow> None
      | a # r \<Rightarrow>
          (case r of
             b # r' \<Rightarrow>
               if a = CHR ''3'' \<and> in_chars b ''01'' then Some (30 + digit_val b, r')
               else if in_chars a ''12'' \<and> isdigit b then Some (digit_val a * 10 + digit_val b, r')
               else if a = CHR ''0'' \<and> in_chars b ''123456789'' then Some (digit_val b, r')
               else if in_chars a ''123456789'' then Some (digit_val a, r)
               else if a = CHR '' '' \<and> in_chars b ''123456789'' then Some (digit_val b, r')
               else None
           | [] \<Rightarrow> if in_chars a ''123456789'' then Some (digit_val a, r) else None))"

definition match_dash :: "string \<Rightarrow> string option" where
  "match_dash s = (case s of [] \<Rightarrow> None | c # r \<Rightarrow> if c = CHR ''-'' then Some r else None)"

definition strptime_Y_m_d :: "string \<Rightarrow> exn + (int \<times> int \<times> int)" where
  "strptime_Y_m_d s =
     (case Option.bind (match_Y s) (\<lambda>(y, r1).
             Option.bind (match_dash r1) (\<lambda>r2.
               Option.bind (match_m r2) (\<lambda>(m, r3).
                 Option.bind (match_dash r3) (\<lambda>r4.
                   Option.bind (match_d r4) (\<lambda>(d, r5). Some (y, m, d, r5)))))) of
        None \<Rightarrow> Inl (ValueError ''time data does not match format'')
      | Some (y, m, d, rest) \<Rightarrow>
          if rest \<noteq> [] then Inl (ValueError ''unconverted data remains'') else Inr (y, m, d))"

definition parse_date :: "string \<Rightarrow> exn + date" where
  "parse_date v = bind_exn (strptime_Y_m_d v) (\<lambda>(y, m, d). mk_date y m d)"

section \<open>Models\<close>

text \<open>
  The two tables. \<open>ds_id\<close> and \<open>exp_id\<close> are the columns \<^verbatim>\<open>id\<close>. A table is the list
  of its rows in insertion order.
\<close>

record daily_sale =
  ds_id :: int
  sale_date :: date
  total_sales :: real
  daily_profit :: real

record expense =
  exp_id :: int
  expense_date :: date
  description :: string
  amount :: real

record database =
  tbl_daily_sales :: "daily_sale list"
  tbl_expenses :: "expense list"

definition empty_db :: database where
  "empty_db = \<lparr>tbl_daily_sales = [], tbl_expenses = []\<rparr>"

text \<open>
  The property \<^verbatim>\<open>DailySale.day_name\<close> is \<^verbatim>\<open>sale_date.strftime("%A")\<close>: the name of
  the weekday, from \<^verbatim>\<open>date.toordinal\<close> and \<^verbatim>\<open>date.weekday\<close>.
\<close>

definition DAYS_BEFORE_MONTH :: "int list" where
  "DAYS_BEFORE_MONTH = [-1, 0, 31, 59, 90, 120, 151, 181, 212, 243, 273, 304, 334]"

definition days_before_year :: "int \<Rightarrow> int" where
  "days_before_year y = (let y' = y - 1 in y' * 365 + y' div 4 - y' div 100 + y' div 400)"

definition days_before_month :: "int \<Rightarrow> int \<Rightarrow> int" where
  "days_before_month y m = DAYS_BEFORE_MONTH ! nat m + (if 2 < m \<and> is_leap y then 1 else 0)"

definition toordinal :: "date \<Rightarrow> int" where
  "toordinal d = days_before_year (year d) + days_before_month (year d) (month d) + day d"

definition weekday :: "date \<Rightarrow> int" where
  "weekday d = (toordinal d + 6) mod 7"

definition day_name :: "daily_sale \<Rightarrow> string" where
  "day_name r =
     [''Monday'', ''Tuesday'', ''Wednesday'', ''Thursday'', ''Friday'', ''Saturday'', ''Sunday'']
       ! nat (weekday (sale_date r))"

text \<open>
  The constraints of the schema: both \<^verbatim>\<open>id\<close> columns are primary keys and
  \<^verbatim>\<open>sale_date\<close> is declared \<^verbatim>\<open>unique=True\<close>. \<^verbatim>\<open>db.session.commit()\<close> writes the
  pending changes and raises IntegrityError when the store refuses them; the caller then
  rolls back, which leaves the database as it was.
\<close>

definition constraints_ok :: "database \<Rightarrow> bool" where
  "constraints_ok db =
     (distinct (map ds_id (tbl_daily_sales db))
      \<and> distinct (map sale_date (tbl_daily_sales db))
      \<and> distinct (map exp_id (tbl_expenses db)))"

definition commit :: "database \<Rightarrow> exn + database" where
  "commit db =
     (if constraints_ok db then Inr db else Inl (IntegrityError ''UNIQUE constraint failed''))"

text \<open>The key the store gives a new row: one more than the largest key, 1 in an empty table.\<close>

definition next_id :: "int list \<Rightarrow> int" where
  "next_id ids = (if ids = [] then 1 else Max (set ids) + 1)"

section \<open>Requests and responses\<close>

datatype http_method = GET | POST

record request =
  rq_method :: http_method
  form :: "string \<rightharpoonup> string"
  args :: "string \<rightharpoonup> string"

text \<open>
  \<open>rq_method\<close> is \<^verbatim>\<open>request.method\<close>. \<^verbatim>\<open>request.form[key]\<close> raises
  BadRequestKeyError for a missing key.
\<close>

definition form_get :: "(string \<rightharpoonup> string) \<Rightarrow> string \<Rightarrow> exn + string" where
  "form_get f k = (case f k of None \<Rightarrow> Inl (BadRequestKeyError k) | Some v \<Rightarrow> Inr v)"

text \<open>A flashed message is the pair of its text and its category.\<close>

type_synonym flash = "string \<times> string"

text \<open>
  The flowables of the monthly report. Of a table only the cell texts are kept; column
  widths and styles are layout.
\<close>

datatype flowable =
    Paragraph string string
  | Spacer int int
  | Table "string list list"

record summary_ctx =
  ctx_month :: string
  ctx_start :: date
  ctx_end :: date
  ctx_total_sales :: real
  ctx_total_profit :: real
  ctx_total_expenses :: real
  ctx_net_profit :: real
  ctx_sales_rows :: "daily_sale list"
  ctx_expense_rows :: "expense list"

record pdf_document =
  pdf_filename :: string
  pdf_title :: string
  pdf_story :: "flowable list"

text \<open>
  What a view returns: a redirect to an endpoint, a rendered template with its context,
  an aborted request, a CSV download (file name, header, rows), the report, or a file
  sent from disk (path, download name).
\<close>

datatype response =
    Redirect string
  | SalesPage "daily_sale list"
  | SaleEditPage daily_sale
  | ExpensesPage "expense list"
  | ExpenseEditPage expense
  | SummaryPage summary_ctx
  | Abort404 string
  | CsvResponse string "string list" "string list list"
  | PdfResponse pdf_document
  | SendFile string string

section \<open>Views: sales\<close>

text \<open>
  The builtin \<^verbatim>\<open>float\<close> on a form value is a parameter \<open>pyfloat\<close> of every view that
  uses it: it returns the number, or the ValueError it raises. The decorator
  \<^verbatim>\<open>login_required_simple\<close> only guards the call; the views below are the decorated
  functions themselves, for a logged-in session.

  A \<^verbatim>\<open>try\<close> block is a function that returns the messages flashed before it ended
  together with the database it committed, or the exception that ended it. The
  \<^verbatim>\<open>except\<close> branch rolls back: the view then returns the database it was given.
\<close>

text \<open>
  \<^verbatim>\<open>sales\<close>, lines 169 to 192: the body of the \<^verbatim>\<open>try\<close>. \<open>ts\<close> and \<open>dp\<close> are
  the local variables \<^verbatim>\<open>total_sales\<close> and \<^verbatim>\<open>daily_profit\<close>.
\<close>

definition sales_try ::
  "(string \<Rightarrow> exn + real) \<Rightarrow> (string \<rightharpoonup> string) \<Rightarrow> database \<Rightarrow> flash list \<times> (exn + database)" where
  "sales_try pyfloat f db =
     (case bind_exn (form_get f ''sale_date'') parse_date of
        Inl e \<Rightarrow> ([], Inl e)
      | Inr d \<Rightarrow>
     (case bind_exn (form_get f ''total_sales'') pyfloat of
        Inl e \<Rightarrow> ([], Inl e)
      | Inr ts \<Rightarrow>
     (case bind_exn (form_get f ''daily_profit'') pyfloat of
        Inl e \<Rightarrow> ([], Inl e)
      | Inr dp \<Rightarrow>
     if ts < 0 \<or> dp < 0 then ([], Inl (ValueError ''Values must be non-negative.''))
     else
       (case find (\<lambda>r. sale_date r = d) (tbl_daily_sales db) of
          Some existing \<Rightarrow>
            ([(''Updated sale for '' @ isoformat d @ ''.'', ''info'')],
             commit (db\<lparr>tbl_daily_sales :=
               map (\<lambda>r. if ds_id r = ds_id existing
                         then r\<lparr>total_sales := ts, daily_profit := dp\<rparr> else r)
                   (tbl_daily_sales db)\<rparr>))
        | None \<Rightarrow>
            ([(''Added sale for '' @ isoformat d @ ''.'', ''success'')],
             commit (db\<lparr>tbl_daily_sales :=
               tbl_daily_sales db @
                 [\<lparr>ds_id = next_id (map ds_id (tbl_daily_sales db)), sale_date = d,
                   total_sales = ts, daily_profit = dp\<rparr>]\<rparr>))))))"

definition sales ::
  "(string \<Rightarrow> exn + real) \<Rightarrow> request \<Rightarrow> database \<Rightarrow> database \<times> flash list \<times> response" where
  "sales pyfloat rq db =
     (if rq_method rq = POST then
        (case sales_try pyfloat (form rq) db of
           (fl, Inr db') \<Rightarrow> (db', fl, Redirect ''sales'')
         | (fl, Inl e) \<Rightarrow>
             (db, fl @ [(''Could not save sale: '' @ exn_str e, ''error'')], Redirect ''sales''))
      else
        (db, [], SalesPage (take 90 (rev (sort_key sale_date (tbl_daily_sales db))))))"

text \<open>\<^verbatim>\<open>edit_sale\<close>, lines 208 to 226: the body of the \<^verbatim>\<open>try\<close>, for the row \<open>sale\<close>.\<close>

definition edit_sale_try ::
  "(string \<Rightarrow> exn + real) \<Rightarrow> daily_sale \<Rightarrow> (string \<rightharpoonup> string) \<Rightarrow> database \<Rightarrow> exn + database" where
  "edit_sale_try pyfloat sale f db =
     bind_exn (bind_exn (form_get f ''sale_date'') parse_date) (\<lambda>d.
     bind_exn (bind_exn (form_get f ''total_sales'') pyfloat) (\<lambda>ts.
     bind_exn (bind_exn (form_get f ''daily_profit'') pyfloat) (\<lambda>dp.
       if ts < 0 \<or> dp < 0 then Inl (ValueError ''Values must be non-negative.'')
       else
         (case find (\<lambda>r. sale_date r = d \<and> ds_id r \<noteq> ds_id sale) (tbl_daily_sales db) of
            Some other \<Rightarrow> Inl (ValueError ''Another sale entry already exists for that date.'')
          | None \<Rightarrow>
              commit (db\<lparr>tbl_daily_sales :=
                map (\<lambda>r. if ds_id r = ds_id sale
                          then r\<lparr>sale_date := d, total_sales := ts, daily_profit := dp\<rparr> else r)
                    (tbl_daily_sales db)\<rparr>)))))"

definition edit_sale ::
  "(string \<Rightarrow> exn + real) \<Rightarrow> int \<Rightarrow> request \<Rightarrow> database \<Rightarrow> database \<times> flash list \<times> response" where
  "edit_sale pyfloat sale_id rq db =
     (case find (\<lambda>r. ds_id r = sale_id) (tbl_daily_sales db) of
        None \<Rightarrow> (db, [], Abort404 ''Not Found'')
      | Some sale \<Rightarrow>
          if rq_method rq = POST then
            (case edit_sale_try pyfloat sale (form rq) db of
               Inr db' \<Rightarrow> (db', [(''Sale updated.'', ''success'')], Redirect ''sales'')
             | Inl e \<Rightarrow>
                 (db, [(''Could not update sale: '' @ exn_str e, ''error'')], SaleEditPage sale))
          else (db, [], SaleEditPage sale))"

definition delete_sale :: "int \<Rightarrow> database \<Rightarrow> database \<times> flash list \<times> response" where
  "delete_sale sale_id db =
     (case find (\<lambda>r. ds_id r = sale_id) (tbl_daily_sales db) of
        None \<Rightarrow> (db, [], Abort404 ''Not Found'')
      | Some sale \<Rightarrow>
          (case commit (db\<lparr>tbl_daily_sales :=
                  filter (\<lambda>r. ds_id r \<noteq> ds_id sale) (tbl_daily_sales db)\<rparr>) of
             Inr db' \<Rightarrow> (db', [(''Sale deleted.'', ''success'')], Redirect ''sales'')
           | Inl e \<Rightarrow>
               (db, [(''Could not delete sale: '' @ exn_str e, ''error'')], Redirect ''sales'')))"

section \<open>Views: expenses\<close>

text \<open>\<^verbatim>\<open>expenses\<close>, lines 254 to 265: the body of the \<^verbatim>\<open>try\<close>.\<close>

definition expenses_try ::
  "(string \<Rightarrow> exn + real) \<Rightarrow> (string \<rightharpoonup> string) \<Rightarrow> database \<Rightarrow> exn + database" where
  "expenses_try pyfloat f db =
     bind_exn (bind_exn (form_get f ''expense_date'') parse_date) (\<lambda>d.
     bind_exn (form_get f ''description'') (\<lambda>raw.
     let desc = py_strip raw in
     bind_exn (bind_exn (form_get f ''amount'') pyfloat) (\<lambda>amt.
       if desc = [] then Inl (ValueError ''Description is required.'')
       else if amt < 0 then Inl (ValueError ''Amount must be non-negative.'')
       else
         commit (db\<lparr>tbl_expenses :=
           tbl_expenses db @
             [\<lparr>exp_id = next_id (map exp_id (tbl_expenses db)), expense_date = d,
               description = desc, amount = amt\<rparr>]\<rparr>))))"

text \<open>The key of the listings of expenses: \<^verbatim>\<open>(expense_date, id)\<close>.\<close>

definition expense_key :: "expense \<Rightarrow> date \<times> int" where
  "expense_key e = (expense_date e, exp_id e)"

definition expenses ::
  "(string \<Rightarrow> exn + real) \<Rightarrow> request \<Rightarrow> database \<Rightarrow> database \<times> flash list \<times> response" where
  "expenses pyfloat rq db =
     (if rq_method rq = POST then
        (case expenses_try pyfloat (form rq) db of
           Inr db' \<Rightarrow> (db', [(''Added expense.'', ''success'')], Redirect ''expenses'')
         | Inl e \<Rightarrow>
             (db, [(''Could not save expense: '' @ exn_str e, ''error'')], Redirect ''expenses''))
      else
        (db, [], ExpensesPage (take 150 (rev (sort_key expense_key (tbl_expenses db))))))"

text \<open>\<^verbatim>\<open>edit_expense\<close>, lines 283 to 297: the body of the \<^verbatim>\<open>try\<close>; \<open>exp_row\<close> is the row \<^verbatim>\<open>exp\<close>.\<close>

definition edit_expense_try ::
  "(string \<Rightarrow> exn + real) \<Rightarrow> expense \<Rightarrow> (string \<rightharpoonup> string) \<Rightarrow> database \<Rightarrow> exn + database" where
  "edit_expense_try pyfloat exp_row f db =
     bind_exn (bind_exn (form_get f ''expense_date'') parse_date) (\<lambda>d.
     bind_exn (form_get f ''description'') (\<lambda>raw.
     let desc = py_strip raw in
     bind_exn (bind_exn (form_get f ''amount'') pyfloat) (\<lambda>amt.
       if desc = [] then Inl (ValueError ''Description is required.'')
       else if amt < 0 then Inl (ValueError ''Amount must be non-negative.'')
       else
         commit (db\<lparr>tbl_expenses :=
           map (\<lambda>r. if exp_id r = exp_id exp_row
                     then r\<lparr>expense_date := d, description := desc, amount := amt\<rparr> else r)
               (tbl_expenses db)\<rparr>))))"

definition edit_expense ::
  "(string \<Rightarrow> exn + real) \<Rightarrow> int \<Rightarrow> request \<Rightarrow> database \<Rightarrow> database \<times> flash list \<times> response" where
  "edit_expense pyfloat expense_id rq db =
     (case find (\<lambda>r. exp_id r = expense_id) (tbl_expenses db) of
        None \<Rightarrow> (db, [], Abort404 ''Not Found'')
      | Some exp_row \<Rightarrow>
          if rq_method rq = POST then
            (case edit_expense_try pyfloat exp_row (form rq) db of
               Inr db' \<Rightarrow> (db', [(''Expense updated.'', ''success'')], Redirect ''expenses'')
             | Inl e \<Rightarrow>
                 (db, [(''Could not update expense: '' @ exn_str e, ''error'')],
                  ExpenseEditPage exp_row))
          else (db, [], ExpenseEditPage exp_row))"

definition delete_expense :: "int \<Rightarrow> database \<Rightarrow> database \<times> flash list \<times> response" where
  "delete_expense expense_id db =
     (case find (\<lambda>r. exp_id r = expense_id) (tbl_expenses db) of
        None \<Rightarrow> (db, [], Abort404 ''Not Found'')
      | Some exp_row \<Rightarrow>
          (case commit (db\<lparr>tbl_expenses :=
                  filter (\<lambda>r. exp_id r \<noteq> exp_id exp_row) (tbl_expenses db)\<rparr>) of
             Inr db' \<Rightarrow> (db', [(''Expense deleted.'', ''success'')], Redirect ''expenses'')
           | Inl e \<Rightarrow>
               (db, [(''Could not delete expense: '' @ exn_str e, ''error'')],
                Redirect ''expenses'')))"

section \<open>Views: summary, exports, report, backup\<close>

text \<open>
  The queries. \<^verbatim>\<open>column.between(start, end)\<close> is inclusive on both sides;
  \<^verbatim>\<open>func.sum\<close> over no rows is NULL, which \<^verbatim>\<open>func.coalesce(..., 0.0)\<close> turns into
  0.0. The three aggregate queries and the two row queries are written out three times
  in the source, in \<^verbatim>\<open>summary\<close> (lines 334 to 361), \<^verbatim>\<open>export_summary_csv\<close> (lines
  410 to 424, aggregates only) and \<^verbatim>\<open>monthly_close_pdf\<close> (lines 463 to 489), each
  time the same.
\<close>

definition between :: "date \<Rightarrow> date \<Rightarrow> date \<Rightarrow> bool" where
  "between x lo hi = (lo \<le> x \<and> x \<le> hi)"

definition sql_sum :: "real list \<Rightarrow> real option" where
  "sql_sum xs = (if xs = [] then None else Some (sum_list xs))"

definition coalesce :: "'a option \<Rightarrow> 'a \<Rightarrow> 'a" where
  "coalesce v d = (case v of None \<Rightarrow> d | Some x \<Rightarrow> x)"

definition query_total_sales :: "database \<Rightarrow> date \<Rightarrow> date \<Rightarrow> real" where
  "query_total_sales db start end =
     coalesce (sql_sum (map total_sales
       (filter (\<lambda>r. between (sale_date r) start end) (tbl_daily_sales db)))) 0"

definition query_total_profit :: "database \<Rightarrow> date \<Rightarrow> date \<Rightarrow> real" where
  "query_total_profit db start end =
     coalesce (sql_sum (map daily_profit
       (filter (\<lambda>r. between (sale_date r) start end) (tbl_daily_sales db)))) 0"

definition query_total_expenses :: "database \<Rightarrow> date \<Rightarrow> date \<Rightarrow> real" where
  "query_total_expenses db start end =
     coalesce (sql_sum (map amount
       (filter (\<lambda>r. between (expense_date r) start end) (tbl_expenses db)))) 0"

definition query_sales_rows :: "database \<Rightarrow> date \<Rightarrow> date \<Rightarrow> daily_sale list" where
  "query_sales_rows db start end =
     sort_key sale_date (filter (\<lambda>r. between (sale_date r) start end) (tbl_daily_sales db))"

definition query_expense_rows :: "database \<Rightarrow> date \<Rightarrow> date \<Rightarrow> expense list" where
  "query_expense_rows db start end =
     sort_key expense_key (filter (\<lambda>r. between (expense_date r) start end) (tbl_expenses db))"

text \<open>
  The month of a request, written out at the head of \<^verbatim>\<open>summary\<close> (lines 324 to 332),
  of \<^verbatim>\<open>export_summary_csv\<close> (lines 401 to 408) and of \<^verbatim>\<open>monthly_close_pdf\<close>
  (lines 454 to 461):
  \<^verbatim>\<open>
  default_month = date.today().strftime("%Y-%m")
  month = request.args.get("month", default_month)
  try:
      start, end = month_bounds(month)
  except Exception:
      month = default_month
      start, end = month_bounds(default_month)
  \<close>
  \<open>today\<close> is \<^verbatim>\<open>date.today()\<close>. The result is the month, its bounds and whether the
  \<^verbatim>\<open>except\<close> branch ran. The fallback calls \<^verbatim>\<open>month_bounds(default_month)\<close>
  outside any \<^verbatim>\<open>try\<close>, so the view itself can raise. Only \<^verbatim>\<open>summary\<close> has a
  further line in its \<^verbatim>\<open>except\<close> branch, the call of \<^verbatim>\<open>flash\<close>.
\<close>

definition resolve_month :: "date \<Rightarrow> request \<Rightarrow> exn + (string \<times> date \<times> date \<times> bool)" where
  "resolve_month today rq =
     (let default_month = strftime_Y_m today;
          month0 = (case args rq ''month'' of None \<Rightarrow> default_month | Some v \<Rightarrow> v)
      in case month_bounds month0 of
           Inr (start, end) \<Rightarrow> Inr (month0, start, end, False)
         | Inl _ \<Rightarrow>
             bind_exn (month_bounds default_month) (\<lambda>(start, end).
               Inr (default_month, start, end, True)))"

definition summary :: "date \<Rightarrow> request \<Rightarrow> database \<Rightarrow> exn + (flash list \<times> response)" where
  "summary today rq db =
     bind_exn (resolve_month today rq)
           (\<lambda>(month1, start, end, fell_back).
              let flashes =
                    (if fell_back
                     then [(''Invalid month selected; showing current month instead.'', ''info'')]
                     else []);
                  total_sales1 = query_total_sales db start end;
                  total_profit = query_total_profit db start end;
                  total_expenses = query_total_expenses db start end;
                  net_profit = total_profit - total_expenses;
                  sales_rows = query_sales_rows db start end;
                  expense_rows = query_expense_rows db start end
              in Inr (flashes,
                      SummaryPage \<lparr>ctx_month = month1, ctx_start = start, ctx_end = end,
                        ctx_total_sales = total_sales1, ctx_total_profit = total_profit,
                        ctx_total_expenses = total_expenses, ctx_net_profit = net_profit,
                        ctx_sales_rows = sales_rows, ctx_expense_rows = expense_rows\<rparr>))"

text \<open>
  \<^verbatim>\<open>csv_response(filename, header, rows)\<close> writes the header and the rows through
  \<^verbatim>\<open>csv.writer\<close>; the model keeps the file name, the header and the rows.
\<close>

definition export_sales_csv :: "database \<Rightarrow> response" where
  "export_sales_csv db =
     (let rows = sort_key sale_date (tbl_daily_sales db);
          data = map (\<lambda>r. [isoformat (sale_date r), day_name r,
                            fmt_2f (total_sales r), fmt_2f (daily_profit r)]) rows
      in CsvResponse ''daily_sales.csv'' [''date'', ''day'', ''total_sales'', ''daily_profit''] data)"

definition export_expenses_csv :: "database \<Rightarrow> response" where
  "export_expenses_csv db =
     (let rows = sort_key expense_key (tbl_expenses db);
          data = map (\<lambda>r. [isoformat (expense_date r), description r, fmt_2f (amount r)]) rows
      in CsvResponse ''expenses.csv'' [''date'', ''description'', ''amount''] data)"


text \<open>
  \<^verbatim>\<open>backup_db\<close>. The module constants \<^verbatim>\<open>BASE_DIR\<close>, \<^verbatim>\<open>DATA_DIR\<close> and
  \<^verbatim>\<open>DB_PATH\<close> depend on where the module lies and on the environment variable
  \<^verbatim>\<open>DATA_DIR\<close>; both are the fields of \<open>config\<close>. The file system is the map from the
  paths that exist to the contents of their files. \<open>path_join\<close> is
  \<^verbatim>\<open>os.path.join\<close> of two POSIX paths.
\<close>

record config =
  cfg_base_dir :: string
  cfg_env_data_dir :: "string option"

definition path_join :: "string \<Rightarrow> string \<Rightarrow> string" where
  "path_join a b =
     (if b \<noteq> [] \<and> hd b = CHR ''/'' then b
      else if a = [] \<or> last a = CHR ''/'' then a @ b
      else a @ ''/'' @ b)"

definition BASE_DIR :: "config \<Rightarrow> string" where
  "BASE_DIR cfg = cfg_base_dir cfg"

definition DATA_DIR :: "config \<Rightarrow> string" where
  "DATA_DIR cfg =
     (case cfg_env_data_dir cfg of None \<Rightarrow> path_join (BASE_DIR cfg) ''data'' | Some v \<Rightarrow> v)"

definition DB_PATH :: "config \<Rightarrow> string" where
  "DB_PATH cfg = path_join (DATA_DIR cfg) ''barbook.db''"

definition SQLALCHEMY_DATABASE_URI :: "config \<Rightarrow> string" where
  "SQLALCHEMY_DATABASE_URI cfg = ''sqlite:///'' @ DB_PATH cfg"

definition backup_db :: "config \<Rightarrow> (string \<rightharpoonup> string) \<Rightarrow> response" where
  "backup_db cfg fs =
     (let db_path = path_join (BASE_DIR cfg) ''barbook.db''
      in if fs db_path = None
         then Abort404 ''Database file not found yet. Run the app once and add some entries.''
         else SendFile db_path ''barbook_backup.db'')"

text \<open>
  \<^verbatim>\<open>monthly_close_pdf\<close>. The response is the document handed to
  \<^verbatim>\<open>SimpleDocTemplate.build\<close>: its title, its story and the name of the download.
  Like \<^verbatim>\<open>export_summary_csv\<close> the view never calls \<^verbatim>\<open>flash\<close>: its list of
  flashed messages is empty.
\<close>

definition monthly_close_pdf ::
  "date \<Rightarrow> request \<Rightarrow> database \<Rightarrow> exn + (flash list \<times> response)" where
  "monthly_close_pdf today rq db =
     bind_exn (resolve_month today rq)
           (\<lambda>(month1, start, end, fell_back).
              let total_sales1 = query_total_sales db start end;
                  total_profit = query_total_profit db start end;
                  total_expenses = query_total_expenses db start end;
                  net_profit = total_profit - total_expenses;
                  sales_rows = query_sales_rows db start end;
                  expense_rows = query_expense_rows db start end;
                  summary_data =
                    [[''Total Sales'', fmt_2f total_sales1],
                     [''Total Expenses'', fmt_2f total_expenses],
                     [''Total Daily Profit'', fmt_2f total_profit],
                     [''Net Profit'', fmt_2f net_profit]];
                  sales_data0 =
                    [[''Date'', ''Day'', ''Total Sales'', ''Daily Profit'']]
                    @ map (\<lambda>r. [isoformat (sale_date r), day_name r,
                                  fmt_2f (total_sales r), fmt_2f (daily_profit r)]) sales_rows;
                  sales_data =
                    (if length sales_data0 = 1
                     then sales_data0 @ [[''-'', ''-'', ''0.00'', ''0.00'']] else sales_data0);
                  exp_data0 =
                    [[''Date'', ''Description'', ''Amount'']]
                    @ map (\<lambda>e. [isoformat (expense_date e), description e,
                                  fmt_2f (amount e)]) expense_rows;
                  exp_data =
                    (if length exp_data0 = 1
                     then exp_data0 @ [[''-'', ''-'', ''0.00'']] else exp_data0);
                  story =
                    [Paragraph ''<b>Monthly Close Report</b>'' ''Title'',
                     Paragraph (''<b>Month:</b> '' @ month1) ''Normal'',
                     Paragraph (''<b>Period:</b> '' @ isoformat start @ '' to '' @ isoformat end)
                       ''Normal'',
                     Spacer 1 10,
                     Paragraph ''<b>Summary</b>'' ''Heading2'',
                     Table summary_data,
                     Spacer 1 14,
                     Paragraph ''<b>Daily Sales</b>'' ''Heading2'',
                     Table sales_data,
                     Spacer 1 14,
                     Paragraph ''<b>Expenses</b>'' ''Heading2'',
                     Table exp_data]
              in Inr ([], PdfResponse
                        \<lparr>pdf_filename = ''monthly_close_'' @ month1 @ ''.pdf'',
                         pdf_title = ''Monthly Close - '' @ month1,
                         pdf_story = story\<rparr>))"

section \<open>Runs of the application\<close>

text \<open>
  A run is a list of requests to the views that write; each request takes the database
  the one before it left. The database of a fresh installation is empty
  (\<^verbatim>\<open>db.create_all()\<close>).
\<close>

datatype action =
    Sales request
  | EditSale int request
  | DeleteSale int
  | Expenses request
  | EditExpense int request
  | DeleteExpense int

fun step :: "(string \<Rightarrow> exn + real) \<Rightarrow> database \<Rightarrow> action \<Rightarrow> database" where
  "step pyfloat db (Sales rq) = fst (sales pyfloat rq db)"
| "step pyfloat db (EditSale i rq) = fst (edit_sale pyfloat i rq db)"
| "step pyfloat db (DeleteSale i) = fst (delete_sale i db)"
| "step pyfloat db (Expenses rq) = fst (expenses pyfloat rq db)"
| "step pyfloat db (EditExpense i rq) = fst (edit_expense pyfloat i rq db)"
| "step pyfloat db (DeleteExpense i) = fst (delete_expense i db)"

definition run :: "(string \<Rightarrow> exn + real) \<Rightarrow> database \<Rightarrow> action list \<Rightarrow> database" where
  "run pyfloat db acts = foldl (step pyfloat) db acts"

section \<open>Notions of the specification\<close>

text \<open>
  A token of the form YYYY-MM: four digits, a hyphen, two digits. Its year and its month
  are the numbers the digits write.
\<close>

definition digits_val :: "string \<Rightarrow> int" where
  "digits_val ds = foldl (\<lambda>a c. a * 10 + digit_val c) 0 ds"

definition is_yyyy_mm :: "string \<Rightarrow> bool" where
  "is_yyyy_mm tok =
     (length tok = 7 \<and> list_all isdigit (take 4 tok) \<and> tok ! 4 = CHR ''-''
      \<and> list_all isdigit (drop 5 tok))"

definition token_year :: "string \<Rightarrow> int" where
  "token_year tok = digits_val (take 4 tok)"

definition token_month :: "string \<Rightarrow> int" where
  "token_month tok = digits_val (drop 5 tok)"

text \<open>The number of days of a month of the Gregorian calendar.\<close>

definition actual_days :: "int \<Rightarrow> int \<Rightarrow> int" where
  "actual_days y m =
     (if m = 2 then (if y mod 4 = 0 \<and> (y mod 100 \<noteq> 0 \<or> y mod 400 = 0) then 29 else 28)
      else if m \<in> {4, 6, 9, 11} then 30 else 31)"

text \<open>A description is trimmed when it is not empty and neither starts nor ends in whitespace.\<close>

definition trimmed :: "string \<Rightarrow> bool" where
  "trimmed s = (s \<noteq> [] \<and> \<not> py_isspace (hd s) \<and> \<not> py_isspace (last s))"

text \<open>The tables of a story, in order.\<close>

fun tables :: "flowable list \<Rightarrow> string list list list" where
  "tables [] = []"
| "tables (Table t # fs) = t # tables fs"
| "tables (_ # fs) = tables fs"

section \<open>Sample data\<close>

text \<open>
  The values the examples below are run on. \<open>sample_float\<close> agrees with \<^verbatim>\<open>float\<close> on
  the four literals the examples submit; no example submits another amount.
\<close>

definition sample_float :: "string \<Rightarrow> exn + real" where
  "sample_float s =
     (if s = ''0'' then Inr 0
      else if s = ''12.5'' then Inr 12.5
      else if s = ''40'' then Inr 40
      else if s = ''-1'' then Inr (- 1)
      else Inl (ValueError ''could not convert string to float''))"

definition sale_1 :: daily_sale where
  "sale_1 = \<lparr>ds_id = 1, sale_date = (2024, 2, 3), total_sales = 40, daily_profit = 12.5\<rparr>"

definition sale_2 :: daily_sale where
  "sale_2 = \<lparr>ds_id = 2, sale_date = (2024, 2, 1), total_sales = 12.5, daily_profit = 0\<rparr>"

definition expense_1 :: expense where
  "expense_1 = \<lparr>exp_id = 1, expense_date = (2024, 2, 5), description = ''ice'', amount = 12.5\<rparr>"

definition expense_2 :: expense where
  "expense_2 = \<lparr>exp_id = 2, expense_date = (2024, 2, 2), description = ''rent'', amount = 40\<rparr>"

definition sample_db :: database where
  "sample_db = \<lparr>tbl_daily_sales = [sale_1, sale_2], tbl_expenses = [expense_1, expense_2]\<rparr>"

definition get_request :: "(string \<rightharpoonup> string) \<Rightarrow> request" where
  "get_request a = \<lparr>rq_method = GET, form = Map.empty, args = a\<rparr>"

definition post_request :: "(string \<rightharpoonup> string) \<Rightarrow> request" where
  "post_request f = \<lparr>rq_method = POST, form = f, args = Map.empty\<rparr>"

definition sample_today :: date where
  "sample_today = (2024, 3, 15)"

definition sale_form :: "string \<Rightarrow> string \<Rightarrow> string \<Rightarrow> string \<rightharpoonup> string" where
  "sale_form d a b = [''sale_date'' \<mapsto> d, ''total_sales'' \<mapsto> a, ''daily_profit'' \<mapsto> b]"

definition expense_form :: "string \<Rightarrow> string \<Rightarrow> string \<Rightarrow> string \<rightharpoonup> string" where
  "expense_form d t a = [''expense_date'' \<mapsto> d, ''description'' \<mapsto> t, ''amount'' \<mapsto> a]"

section \<open>Reading decimal digits\<close>

lemma isdigit_not_space: "isdigit c \<Longrightarrow> \<not> py_isspace c"
  by (auto simp: isdigit_def py_isspace_def)

lemma isdigit_not_sign: "isdigit c \<Longrightarrow> c \<noteq> CHR ''-'' \<and> c \<noteq> CHR ''+'' \<and> c \<noteq> CHR ''_''"
  by (auto simp: isdigit_def)

lemma digit_val_range: "isdigit c \<Longrightarrow> 0 \<le> digit_val c \<and> digit_val c \<le> 9"
  by (auto simp: isdigit_def digit_val_def)

lemma py_strip_id:
  assumes "s \<noteq> []" "\<not> py_isspace (hd s)" "\<not> py_isspace (last s)"
  shows "py_strip s = s"
proof -
  from assms have front: "dropWhile py_isspace s = s"
    by (cases s) auto
  from assms have "rev s \<noteq> []" "\<not> py_isspace (hd (rev s))"
    by (simp_all add: hd_rev)
  then have "dropWhile py_isspace (rev s) = rev s"
    by (cases "rev s") auto
  with front show ?thesis by (simp add: py_strip_def)
qed

lemma dec_tail_digits:
  "list_all isdigit ds \<Longrightarrow>
   dec_tail acc ds = Some (foldl (\<lambda>a c. a * 10 + digit_val c) acc ds)"
  by (induction ds arbitrary: acc) auto

lemma py_int_digits:
  assumes "ds \<noteq> []" "list_all isdigit ds"
  shows "py_int ds = Inr (digits_val ds)"
proof -
  obtain c cs where ds: "ds = c # cs" using assms(1) by (cases ds) auto
  have c: "isdigit c" and cs: "list_all isdigit cs" using assms(2) ds by auto
  have "isdigit (last ds)" using assms by (induction ds) auto
  then have "py_strip ds = ds"
    using assms(1) c ds by (intro py_strip_id) (auto simp: isdigit_not_space)
  moreover have "dec_digits ds = Some (digits_val ds)"
    using c cs by (simp add: ds dec_digits_def digits_val_def dec_tail_digits)
  ultimately show ?thesis
    using c isdigit_not_sign[OF c] by (simp add: py_int_def ds)
qed

lemma py_split_digits: "list_all isdigit s \<Longrightarrow> py_split CHR ''-'' s = [s]"
  by (induction s) (auto simp: isdigit_not_sign)

lemma py_split_digits_dash:
  "list_all isdigit s \<Longrightarrow> py_split CHR ''-'' (s @ CHR ''-'' # t) = s # py_split CHR ''-'' t"
  by (induction s) (auto simp: isdigit_not_sign)

lemma is_yyyy_mm_split:
  assumes "is_yyyy_mm tok"
  shows "tok = take 4 tok @ CHR ''-'' # drop 5 tok"
proof -
  have "tok = take 4 tok @ drop 4 tok" by simp
  moreover have "drop 4 tok = tok ! 4 # drop 5 tok"
    using assms Cons_nth_drop_Suc[of 4 tok] by (simp add: is_yyyy_mm_def)
  ultimately show ?thesis using assms by (simp add: is_yyyy_mm_def)
qed

lemma digits_val_4_le:
  assumes "length ds = 4" "list_all isdigit ds"
  shows "digits_val ds \<le> 9999"
proof -
  obtain a b c d where ds: "ds = [a, b, c, d]"
    using assms(1) by (auto simp: length_Suc_conv numeral_eq_Suc)
  show ?thesis
    using assms(2) digit_val_range[of a] digit_val_range[of b] digit_val_range[of c]
      digit_val_range[of d]
    by (simp add: ds digits_val_def)
qed

section \<open>The length of a month\<close>

lemma month_cases: "1 \<le> m \<Longrightarrow> m \<le> 12 \<Longrightarrow> (m::int) \<in> {1, 2, 3, 4, 5, 6, 7, 8, 9, 10, 11, 12}"
  by simp arith

lemma monthrange_ndays_eq:
  assumes "1 \<le> m" "m \<le> 12"
  shows "monthrange_ndays y m = Inr (actual_days y m)"
  using month_cases[OF assms]
  by (auto simp: monthrange_ndays_def mdays_def isleap_def actual_days_def)

lemma days_in_month_eq:
  assumes "1 \<le> m" "m \<le> 12"
  shows "days_in_month y m = actual_days y m"
  using month_cases[OF assms]
  by (auto simp: days_in_month_def DAYS_IN_MONTH_def is_leap_def actual_days_def)

lemma actual_days_ge: "28 \<le> actual_days y m"
  by (simp add: actual_days_def)

lemma valid_date_iff:
  "valid_date (y, m, d) \<longleftrightarrow>
     1 \<le> y \<and> y \<le> 9999 \<and> 1 \<le> m \<and> m \<le> 12 \<and> 1 \<le> d \<and> d \<le> days_in_month y m"
  by (auto simp: valid_date_def mk_date_def year_def month_def day_def)

lemma month_bounds_in_range:
  assumes "is_yyyy_mm tok" "1 \<le> token_year tok" "1 \<le> token_month tok" "token_month tok \<le> 12"
  shows "month_bounds tok =
           Inr ((token_year tok, token_month tok, 1),
                (token_year tok, token_month tok,
                 actual_days (token_year tok) (token_month tok)))"
proof -
  let ?ys = "take 4 tok" and ?ms = "drop 5 tok"
  have dy: "list_all isdigit ?ys" and dm: "list_all isdigit ?ms"
    and ny: "?ys \<noteq> []" and nm: "?ms \<noteq> []" and ly: "length ?ys = 4"
    using assms(1) by (auto simp: is_yyyy_mm_def)
  have "py_split CHR ''-'' tok = [?ys, ?ms]"
    using is_yyyy_mm_split[OF assms(1)] py_split_digits_dash[OF dy, of ?ms]
      py_split_digits[OF dm]
    by simp
  then have u: "unpack2_int (py_split CHR ''-'' tok) = Inr (token_year tok, token_month tok)"
    by (simp add: unpack2_int_def bind_exn_def py_int_digits[OF ny dy] py_int_digits[OF nm dm]
        token_year_def token_month_def)
  have y: "token_year tok \<le> 9999"
    unfolding token_year_def by (rule digits_val_4_le[OF ly dy])
  show ?thesis
    using assms(2-4) y actual_days_ge[of "token_year tok" "token_month tok"]
    by (simp add: month_bounds_def u bind_exn_def mk_date_def monthrange_ndays_eq
        days_in_month_eq)
qed

lemma token_year_le:
  assumes "is_yyyy_mm tok"
  shows "token_year tok \<le> 9999"
  unfolding token_year_def using assms
  by (intro digits_val_4_le) (auto simp: is_yyyy_mm_def)

section \<open>The bounds of a valid token (claim C5)\<close>

text \<open>
  Claim C5. For every valid token of the form YYYY-MM (year from 0001 to 9999, month from
  01 to 12), \<open>month_bounds\<close> returns the first day of that month and its last day: the day
  whose number is the day count of the month in the Gregorian calendar, the largest day
  number that makes a date of that month. In particular the token 2024-02 gives
  2024-02-01 and 2024-02-29, and the token 2023-02 gives 2023-02-01 and 2023-02-28.
\<close>

theorem month_bounds_valid_token:
  "(is_yyyy_mm tok \<and> 1 \<le> token_year tok \<and> 1 \<le> token_month tok \<and> token_month tok \<le> 12 \<longrightarrow>
      month_bounds tok =
        Inr ((token_year tok, token_month tok, 1),
             (token_year tok, token_month tok, actual_days (token_year tok) (token_month tok)))
      \<and> valid_date (token_year tok, token_month tok,
                     actual_days (token_year tok) (token_month tok))
      \<and> \<not> valid_date (token_year tok, token_month tok,
                       actual_days (token_year tok) (token_month tok) + 1))
   \<and> month_bounds ''2024-02'' = Inr ((2024, 2, 1), (2024, 2, 29))
   \<and> month_bounds ''2023-02'' = Inr ((2023, 2, 1), (2023, 2, 28))"
proof (intro conjI impI)
  assume a: "is_yyyy_mm tok \<and> 1 \<le> token_year tok \<and> 1 \<le> token_month tok \<and> token_month tok \<le> 12"
  then show "month_bounds tok =
        Inr ((token_year tok, token_month tok, 1),
             (token_year tok, token_month tok, actual_days (token_year tok) (token_month tok)))"
    by (intro month_bounds_in_range) simp_all
  from a have y: "token_year tok \<le> 9999" by (intro token_year_le) simp
  from a y show "valid_date (token_year tok, token_month tok,
                     actual_days (token_year tok) (token_month tok))"
    using actual_days_ge[of "token_year tok" "token_month tok"]
    by (simp add: valid_date_iff days_in_month_eq)
  from a show "\<not> valid_date (token_year tok, token_month tok,
                       actual_days (token_year tok) (token_month tok) + 1)"
    by (simp add: valid_date_iff days_in_month_eq)
next
  show "month_bounds ''2024-02'' = Inr ((2024, 2, 1), (2024, 2, 29))"
    by code_simp
next
  show "month_bounds ''2023-02'' = Inr ((2023, 2, 1), (2023, 2, 28))"
    by code_simp
qed

theorem month_bounds_valid_token_witness:
  "is_yyyy_mm ''1999-12'' \<and> 1 \<le> token_year ''1999-12'' \<and> 1 \<le> token_month ''1999-12''
   \<and> token_month ''1999-12'' \<le> 12
   \<and> month_bounds ''1999-12'' = Inr ((1999, 12, 1), (1999, 12, 31))
   \<and> valid_date (1999, 12, 31) \<and> \<not> valid_date (1999, 12, 32)"
proof -
  have h: "is_yyyy_mm ''1999-12'' \<and> 1 \<le> token_year ''1999-12'' \<and> 1 \<le> token_month ''1999-12''
           \<and> token_month ''1999-12'' \<le> 12"
    by (simp add: is_yyyy_mm_def isdigit_def token_year_def token_month_def digits_val_def
        digit_val_def)
  have v: "token_year ''1999-12'' = 1999" "token_month ''1999-12'' = 12"
    by (simp_all add: token_year_def token_month_def digits_val_def digit_val_def)
  have d: "actual_days 1999 12 = 31"
    by (simp add: actual_days_def)
  show ?thesis
    using h month_bounds_valid_token[of "''1999-12''"] by (simp add: v d)
qed

section \<open>Queries and sample evaluations\<close>

lemmas sample_defs = sample_db_def sale_1_def sale_2_def expense_1_def expense_2_def
  get_request_def post_request_def sample_today_def

lemma fmt_2f_zero: "fmt_2f 0 = ''0.00''"
  by code_simp

lemma sum_list_map_insort_key:
  "sum_list (map f (insort_key k x xs)) = (f x :: real) + sum_list (map f xs)"
  by (induction xs) auto

lemma sum_list_map_sort_key:
  "sum_list (map f (sort_key k xs)) = (sum_list (map f xs) :: real)"
  by (induction xs) (auto simp: sum_list_map_insort_key)

lemma coalesce_sql_sum: "coalesce (sql_sum xs) 0 = sum_list xs"
  by (simp add: coalesce_def sql_sum_def)

lemma sort_key_Nil_iff: "sort_key k xs = [] \<longleftrightarrow> xs = []"
  using length_sort[of k xs] by (metis length_0_conv)

lemma sorted_rev_take_rev: "sorted xs \<Longrightarrow> sorted (rev (take n (rev xs)))"
  by (simp add: rev_take sorted_wrt_drop)

lemma month_bounds_2024_02: "month_bounds ''2024-02'' = Inr ((2024, 2, 1), (2024, 2, 29))"
  by code_simp

lemma resolve_month_sample:
  "resolve_month sample_today (get_request [''month'' \<mapsto> ''2024-02''])
     = Inr (''2024-02'', (2024, 2, 1), (2024, 2, 29), False)"
  by (simp add: resolve_month_def get_request_def month_bounds_2024_02)

lemma summary_ctx_queries:
  assumes "summary today rq db = Inr (fl, SummaryPage ctx)"
  shows "ctx_total_sales ctx = query_total_sales db (ctx_start ctx) (ctx_end ctx)
       \<and> ctx_total_profit ctx = query_total_profit db (ctx_start ctx) (ctx_end ctx)
       \<and> ctx_total_expenses ctx = query_total_expenses db (ctx_start ctx) (ctx_end ctx)
       \<and> ctx_sales_rows ctx = query_sales_rows db (ctx_start ctx) (ctx_end ctx)
       \<and> ctx_expense_rows ctx = query_expense_rows db (ctx_start ctx) (ctx_end ctx)"
  using assms
  by (auto simp: summary_def bind_exn_def Let_def split: sum.splits prod.splits)

lemma query_totals_sum:
  "query_total_sales db start end = sum_list (map total_sales (query_sales_rows db start end))"
  "query_total_profit db start end = sum_list (map daily_profit (query_sales_rows db start end))"
  "query_total_expenses db start end = sum_list (map amount (query_expense_rows db start end))"
  by (simp_all add: query_total_sales_def query_total_profit_def query_total_expenses_def
      query_sales_rows_def query_expense_rows_def coalesce_sql_sum sum_list_map_sort_key)

lemma query_rows_empty:
  "(\<forall>r\<in>set (tbl_daily_sales db). \<not> between (sale_date r) start end) \<Longrightarrow> query_sales_rows db start end = []"
  "(\<forall>e\<in>set (tbl_expenses db). \<not> between (expense_date e) start end) \<Longrightarrow> query_expense_rows db start end = []"
  by (simp_all add: query_sales_rows_def query_expense_rows_def filter_empty_conv[THEN iffD2])

lemma summary_sample:
  "summary sample_today (get_request [''month'' \<mapsto> ''2024-02'']) sample_db
   = Inr ([], SummaryPage
        \<lparr>ctx_month = ''2024-02'', ctx_start = (2024, 2, 1), ctx_end = (2024, 2, 29),
         ctx_total_sales = 52.5, ctx_total_profit = 12.5, ctx_total_expenses = 52.5,
         ctx_net_profit = - 40, ctx_sales_rows = [sale_2, sale_1],
         ctx_expense_rows = [expense_2, expense_1]\<rparr>)"
  unfolding summary_def resolve_month_sample
  by (simp add: bind_exn_def sample_defs query_total_sales_def
      query_total_profit_def query_total_expenses_def query_sales_rows_def
      query_expense_rows_def between_def coalesce_def sql_sum_def expense_key_def Let_def)

section \<open>Totals and listed rows (claim C2)\<close>



section \<open>The file of the backup route (claim C9)\<close>

text \<open>
  Claim C9. The backup route should send the file the persistence layer reads and writes,
  the one at \<open>DB_PATH\<close>. The code looks for \<^verbatim>\<open>barbook.db\<close> directly under
  \<open>BASE_DIR\<close> instead. With the module in \<^verbatim>\<open>/app\<close> and no \<^verbatim>\<open>DATA_DIR\<close> in the
  environment the database is \<^verbatim>\<open>/app/data/barbook.db\<close>; when that file exists the
  route answers 404, and when a file \<^verbatim>\<open>/app/barbook.db\<close> exists beside it the route
  sends that other file.
\<close>

theorem backup_db_misses_database_file:
  "DB_PATH \<lparr>cfg_base_dir = ''/app'', cfg_env_data_dir = None\<rparr> = ''/app/data/barbook.db''
   \<and> backup_db \<lparr>cfg_base_dir = ''/app'', cfg_env_data_dir = None\<rparr>
        [''/app/data/barbook.db'' \<mapsto> ''SQLite format 3'']
       = Abort404 ''Database file not found yet. Run the app once and add some entries.''
   \<and> backup_db \<lparr>cfg_base_dir = ''/app'', cfg_env_data_dir = None\<rparr>
        [''/app/data/barbook.db'' \<mapsto> ''SQLite format 3'', ''/app/barbook.db'' \<mapsto> ''old'']
       = SendFile ''/app/barbook.db'' ''barbook_backup.db''"
  by (simp add: DB_PATH_def DATA_DIR_def BASE_DIR_def path_join_def backup_db_def)

section \<open>The report of an empty month (claim C8)\<close>

text \<open>
  Claim C8. When the range of the report holds no sale and no expense, the summary table
  shows 0.00 for its four amounts, the sales table is its header and the one row
  -, -, 0.00, 0.00, and the expenses table is its header and the one row -, -, 0.00.
\<close>

theorem monthly_close_empty_range:
  assumes "resolve_month today rq = Inr (m, start, end, fb)"
      and "\<forall>r\<in>set (tbl_daily_sales db). \<not> between (sale_date r) start end"
      and "\<forall>e\<in>set (tbl_expenses db). \<not> between (expense_date e) start end"
  shows "\<exists>doc. monthly_close_pdf today rq db = Inr ([], PdfResponse doc)
          \<and> tables (pdf_story doc) =
              [[[''Total Sales'', ''0.00''], [''Total Expenses'', ''0.00''],
                [''Total Daily Profit'', ''0.00''], [''Net Profit'', ''0.00'']],
               [[''Date'', ''Day'', ''Total Sales'', ''Daily Profit''],
                [''-'', ''-'', ''0.00'', ''0.00'']],
               [[''Date'', ''Description'', ''Amount''], [''-'', ''-'', ''0.00'']]]"
proof -
  have rows: "query_sales_rows db start end = []" "query_expense_rows db start end = []"
    using assms(2,3) by (simp_all add: query_rows_empty)
  then have zero: "query_total_sales db start end = 0" "query_total_profit db start end = 0"
    "query_total_expenses db start end = 0"
    by (simp_all add: query_totals_sum)
  show ?thesis
    by (simp add: monthly_close_pdf_def assms(1) bind_exn_def rows zero fmt_2f_zero)
qed

theorem monthly_close_empty_range_witness:
  "resolve_month sample_today (get_request [''month'' \<mapsto> ''2024-02''])
     = Inr (''2024-02'', (2024, 2, 1), (2024, 2, 29), False)
   \<and> list_all (\<lambda>r. \<not> between (sale_date r) (2024, 2, 1) (2024, 2, 29)) (tbl_daily_sales empty_db)
   \<and> list_all (\<lambda>e. \<not> between (expense_date e) (2024, 2, 1) (2024, 2, 29)) (tbl_expenses empty_db)
   \<and> (\<exists>doc. monthly_close_pdf sample_today (get_request [''month'' \<mapsto> ''2024-02'']) empty_db
               = Inr ([], PdfResponse doc)
          \<and> tables (pdf_story doc) =
              [[[''Total Sales'', ''0.00''], [''Total Expenses'', ''0.00''],
                [''Total Daily Profit'', ''0.00''], [''Net Profit'', ''0.00'']],
               [[''Date'', ''Day'', ''Total Sales'', ''Daily Profit''],
                [''-'', ''-'', ''0.00'', ''0.00'']],
               [[''Date'', ''Description'', ''Amount''], [''-'', ''-'', ''0.00'']]])"
proof -
  have h2: "\<forall>r\<in>set (tbl_daily_sales empty_db). \<not> between (sale_date r) (2024, 2, 1) (2024, 2, 29)"
    and h3: "\<forall>e\<in>set (tbl_expenses empty_db). \<not> between (expense_date e) (2024, 2, 1) (2024, 2, 29)"
    by (simp_all add: empty_db_def)
  from monthly_close_empty_range[OF resolve_month_sample h2 h3] resolve_month_sample h2 h3
  show ?thesis by (simp add: list_all_iff)
qed

section \<open>The order of listed expenses (claim C7)\<close>

text \<open>
  Claim C7 as stated fails: the page of expenses lists the rows the other way round. For
  the two sample expenses it shows the one of 2024-02-05 before the one of 2024-02-02.
\<close>

theorem expenses_page_not_ascending:
  "expenses sample_float (get_request Map.empty) sample_db
     = (sample_db, [], ExpensesPage [expense_1, expense_2])
   \<and> \<not> sorted (map expense_key [expense_1, expense_2])"
  by (simp add: expenses_def sample_defs expense_key_def)

text \<open>
  Claim C7, amended. For every database, the rows of expenses on the summary page and in
  the CSV export are in ascending order of (expense_date, id), the export holding every
  expense; the page of expenses shows the ascending listing backwards, cut after 150
  rows: the latest 150 expenses in descending order of (expense_date, id).
\<close>

theorem expense_listings_order:
  "(summary today rq db = Inr (fl, SummaryPage ctx) \<longrightarrow>
      sorted (map expense_key (ctx_expense_rows ctx)))
   \<and> (\<exists>rows. export_expenses_csv db
         = CsvResponse ''expenses.csv'' [''date'', ''description'', ''amount'']
             (map (\<lambda>r. [isoformat (expense_date r), description r, fmt_2f (amount r)]) rows)
        \<and> sorted (map expense_key rows) \<and> set rows = set (tbl_expenses db)
        \<and> length rows = length (tbl_expenses db))
   \<and> (rq_method rq' \<noteq> POST \<longrightarrow>
        (\<exists>rows. expenses pyfloat rq' db = (db, [], ExpensesPage rows)
           \<and> rows = take 150 (rev (sort_key expense_key (tbl_expenses db)))
           \<and> sorted (rev (map expense_key rows)) \<and> length rows \<le> 150
           \<and> set rows \<subseteq> set (tbl_expenses db)))"
proof (intro conjI impI)
  assume "summary today rq db = Inr (fl, SummaryPage ctx)"
  then have "ctx_expense_rows ctx = query_expense_rows db (ctx_start ctx) (ctx_end ctx)"
    by (simp add: summary_ctx_queries)
  then show "sorted (map expense_key (ctx_expense_rows ctx))"
    by (simp add: query_expense_rows_def)
next
  show "\<exists>rows. export_expenses_csv db
         = CsvResponse ''expenses.csv'' [''date'', ''description'', ''amount'']
             (map (\<lambda>r. [isoformat (expense_date r), description r, fmt_2f (amount r)]) rows)
        \<and> sorted (map expense_key rows) \<and> set rows = set (tbl_expenses db)
        \<and> length rows = length (tbl_expenses db)"
    by (rule exI[of _ "sort_key expense_key (tbl_expenses db)"])
       (simp add: export_expenses_csv_def)
next
  assume m: "rq_method rq' \<noteq> POST"
  let ?rows = "take 150 (rev (sort_key expense_key (tbl_expenses db)))"
  have "sorted (rev (map expense_key ?rows))"
    using sorted_rev_take_rev[of "map expense_key (sort_key expense_key (tbl_expenses db))" 150]
    by (simp add: rev_map take_map)
  moreover have "set ?rows \<subseteq> set (tbl_expenses db)"
    using set_take_subset[of 150 "rev (sort_key expense_key (tbl_expenses db))"] by simp
  ultimately show "\<exists>rows. expenses pyfloat rq' db = (db, [], ExpensesPage rows)
           \<and> rows = take 150 (rev (sort_key expense_key (tbl_expenses db)))
           \<and> sorted (rev (map expense_key rows)) \<and> length rows \<le> 150
           \<and> set rows \<subseteq> set (tbl_expenses db)"
    using m by (intro exI[of _ ?rows]) (simp add: expenses_def)
qed

theorem expense_listings_order_witness:
  "summary sample_today (get_request [''month'' \<mapsto> ''2024-02'']) sample_db
     = Inr ([], SummaryPage
        \<lparr>ctx_month = ''2024-02'', ctx_start = (2024, 2, 1), ctx_end = (2024, 2, 29),
         ctx_total_sales = 52.5, ctx_total_profit = 12.5, ctx_total_expenses = 52.5,
         ctx_net_profit = - 40, ctx_sales_rows = [sale_2, sale_1],
         ctx_expense_rows = [expense_2, expense_1]\<rparr>)
   \<and> sorted (map expense_key [expense_2, expense_1])
   \<and> rq_method (get_request Map.empty) \<noteq> POST
   \<and> (\<exists>rows. expenses sample_float (get_request Map.empty) sample_db
                = (sample_db, [], ExpensesPage rows)
            \<and> sorted (rev (map expense_key rows)) \<and> length rows \<le> 150)"
proof -
  let ?rq = "get_request [''month'' \<mapsto> ''2024-02'']"
  let ?ctx = "\<lparr>ctx_month = ''2024-02'', ctx_start = (2024, 2, 1), ctx_end = (2024, 2, 29),
         ctx_total_sales = 52.5, ctx_total_profit = 12.5, ctx_total_expenses = 52.5,
         ctx_net_profit = - 40, ctx_sales_rows = [sale_2, sale_1],
         ctx_expense_rows = [expense_2, expense_1]\<rparr>"
  have s: "summary sample_today ?rq sample_db = Inr ([], SummaryPage ?ctx)"
    by (rule summary_sample)
  have g: "rq_method (get_request Map.empty) \<noteq> POST"
    by (simp add: get_request_def)
  note t = expense_listings_order[of sample_today ?rq sample_db "[]" ?ctx
      "get_request Map.empty" sample_float]
  from t s have "sorted (map expense_key (ctx_expense_rows ?ctx))" by blast
  then have a: "sorted (map expense_key [expense_2, expense_1])" by simp
  from t g have "\<exists>rows. expenses sample_float (get_request Map.empty) sample_db
                = (sample_db, [], ExpensesPage rows)
            \<and> sorted (rev (map expense_key rows)) \<and> length rows \<le> 150"
    by blast
  with s a g show ?thesis by blast
qed

section \<open>The store\<close>

lemma commit_ok: "constraints_ok db \<Longrightarrow> commit db = Inr db"
  by (simp add: commit_def)

lemma commit_Inr: "commit db = Inr db' \<Longrightarrow> db' = db \<and> constraints_ok db"
  by (simp add: commit_def split: if_splits)

lemma next_id_fresh: "next_id ids \<notin> set ids"
proof (cases "ids = []")
  case True
  then show ?thesis by simp
next
  case False
  have "Max (set ids) + 1 \<notin> set ids"
  proof
    assume "Max (set ids) + 1 \<in> set ids"
    then have "Max (set ids) + 1 \<le> Max (set ids)" by (intro Max_ge) auto
    then show False by simp
  qed
  with False show ?thesis by (simp add: next_id_def)
qed

lemma find_by_date_None:
  "find (\<lambda>r. sale_date r = d) rows = None \<longleftrightarrow> d \<notin> sale_date ` set rows"
  by (auto simp: find_None_iff)

lemma find_by_date_Some:
  "find (\<lambda>r. sale_date r = d) rows = Some x \<Longrightarrow> x \<in> set rows \<and> sale_date x = d"
  by (auto simp: find_Some_iff in_set_conv_nth)

lemma distinct_map_eq:
  "distinct (map f xs) \<Longrightarrow> x \<in> set xs \<Longrightarrow> y \<in> set xs \<Longrightarrow> f x = f y \<Longrightarrow> x = y"
  by (meson distinct_map inj_onD)

lemma update_by_id_is_update_by_date:
  assumes "constraints_ok db" "existing \<in> set (tbl_daily_sales db)" "sale_date existing = d"
  shows "map (\<lambda>r. if ds_id r = ds_id existing then g r else r) (tbl_daily_sales db)
       = map (\<lambda>r. if sale_date r = d then g r else r) (tbl_daily_sales db)"
proof (rule map_cong[OF refl])
  fix r assume r: "r \<in> set (tbl_daily_sales db)"
  have "ds_id r = ds_id existing \<longleftrightarrow> sale_date r = d"
    using assms r distinct_map_eq[of ds_id "tbl_daily_sales db" r existing]
      distinct_map_eq[of sale_date "tbl_daily_sales db" r existing]
    by (auto simp: constraints_ok_def)
  then show "(if ds_id r = ds_id existing then g r else r) = (if sale_date r = d then g r else r)"
    by simp
qed

lemma constraints_ok_insert_sale:
  assumes "constraints_ok db" "d \<notin> sale_date ` set (tbl_daily_sales db)"
  shows "constraints_ok (db\<lparr>tbl_daily_sales := tbl_daily_sales db @
           [\<lparr>ds_id = next_id (map ds_id (tbl_daily_sales db)), sale_date = d,
             total_sales = ts, daily_profit = dp\<rparr>]\<rparr>)"
  using assms next_id_fresh[of "map ds_id (tbl_daily_sales db)"]
  by (auto simp: constraints_ok_def)

lemma map_update_amounts_keys:
  "map (ds_id \<circ> (\<lambda>r. if P r then r\<lparr>total_sales := ts, daily_profit := dp\<rparr> else r)) xs
     = map ds_id xs"
  "map (sale_date \<circ> (\<lambda>r. if P r then r\<lparr>total_sales := ts, daily_profit := dp\<rparr> else r)) xs
     = map sale_date xs"
  by (induction xs) auto

lemma image_update_amounts:
  "sale_date ` set (map (\<lambda>r. if P r then r\<lparr>total_sales := ts, daily_profit := dp\<rparr> else r) xs)
     = sale_date ` set xs"
  by (induction xs) auto

lemma constraints_ok_update_amounts:
  assumes "constraints_ok db"
  shows "constraints_ok (db\<lparr>tbl_daily_sales :=
           map (\<lambda>r. if P r then r\<lparr>total_sales := ts, daily_profit := dp\<rparr> else r)
               (tbl_daily_sales db)\<rparr>)"
  using assms by (simp add: constraints_ok_def map_update_amounts_keys)

section \<open>Outcomes of sales\<close>

lemma sales_post_insert:
  assumes "constraints_ok db" "rq_method rq = POST"
    and "form rq ''sale_date'' = Some s" "parse_date s = Inr d"
    and "form rq ''total_sales'' = Some a" "pyfloat a = Inr ts"
    and "form rq ''daily_profit'' = Some b" "pyfloat b = Inr dp"
    and "0 \<le> ts" "0 \<le> dp"
    and "d \<notin> sale_date ` set (tbl_daily_sales db)"
  shows "sales pyfloat rq db =
           (db\<lparr>tbl_daily_sales := tbl_daily_sales db @
                 [\<lparr>ds_id = next_id (map ds_id (tbl_daily_sales db)), sale_date = d,
                   total_sales = ts, daily_profit = dp\<rparr>]\<rparr>,
            [(''Added sale for '' @ isoformat d @ ''.'', ''success'')], Redirect ''sales'')"
  using assms constraints_ok_insert_sale[OF assms(1) assms(11), of ts dp]
  by (simp add: sales_def sales_try_def form_get_def bind_exn_def find_by_date_None[THEN iffD2]
      commit_ok not_less)

lemma sales_post_update:
  assumes "constraints_ok db" "rq_method rq = POST"
    and "form rq ''sale_date'' = Some s" "parse_date s = Inr d"
    and "form rq ''total_sales'' = Some a" "pyfloat a = Inr ts"
    and "form rq ''daily_profit'' = Some b" "pyfloat b = Inr dp"
    and "0 \<le> ts" "0 \<le> dp"
    and "d \<in> sale_date ` set (tbl_daily_sales db)"
  shows "sales pyfloat rq db =
           (db\<lparr>tbl_daily_sales :=
                 map (\<lambda>r. if sale_date r = d
                           then r\<lparr>total_sales := ts, daily_profit := dp\<rparr> else r)
                     (tbl_daily_sales db)\<rparr>,
            [(''Updated sale for '' @ isoformat d @ ''.'', ''info'')], Redirect ''sales'')"
proof -
  obtain existing where f: "find (\<lambda>r. sale_date r = d) (tbl_daily_sales db) = Some existing"
    using assms(11) find_by_date_None[of d "tbl_daily_sales db"] by (cases "find (\<lambda>r. sale_date r = d) (tbl_daily_sales db)") auto
  note e = find_by_date_Some[OF f]
  have u: "map (\<lambda>r. if ds_id r = ds_id existing
                     then r\<lparr>total_sales := ts, daily_profit := dp\<rparr> else r) (tbl_daily_sales db)
         = map (\<lambda>r. if sale_date r = d
                     then r\<lparr>total_sales := ts, daily_profit := dp\<rparr> else r) (tbl_daily_sales db)"
    using e by (intro update_by_id_is_update_by_date[OF assms(1)]) simp_all
  show ?thesis
    using assms(2-10) constraints_ok_update_amounts[OF assms(1), where P = "\<lambda>r. sale_date r = d" and ts = ts and dp = dp]
    by (simp add: sales_def sales_try_def form_get_def bind_exn_def f u commit_ok not_less)
qed

lemma sales_post_negative:
  assumes "rq_method rq = POST"
    and "form rq ''sale_date'' = Some s" "parse_date s = Inr d"
    and "form rq ''total_sales'' = Some a" "pyfloat a = Inr ts"
    and "form rq ''daily_profit'' = Some b" "pyfloat b = Inr dp"
    and "ts < 0 \<or> dp < 0"
  shows "sales pyfloat rq db =
           (db, [(''Could not save sale: Values must be non-negative.'', ''error'')],
            Redirect ''sales'')"
  using assms by (auto simp: sales_def sales_try_def form_get_def bind_exn_def)

lemma sales_negative_unchanged:
  assumes "form rq ''total_sales'' = Some a" "pyfloat a = Inr ts"
    and "form rq ''daily_profit'' = Some b" "pyfloat b = Inr dp"
    and "ts < 0 \<or> dp < 0"
  shows "fst (sales pyfloat rq db) = db"
  using assms
  by (auto simp: sales_def sales_try_def form_get_def bind_exn_def split: sum.splits option.splits)


section \<open>Invariants of a run\<close>

lemma sales_constraints: "fst (sales pyfloat rq db) = db \<or> constraints_ok (fst (sales pyfloat rq db))"
  by (auto simp: sales_def sales_try_def bind_exn_def commit_def
      split: sum.splits option.splits if_splits)

lemma edit_sale_constraints:
  "fst (edit_sale pyfloat i rq db) = db \<or> constraints_ok (fst (edit_sale pyfloat i rq db))"
  by (auto simp: edit_sale_def edit_sale_try_def bind_exn_def commit_def
      split: sum.splits option.splits if_splits)

lemma delete_sale_constraints:
  "fst (delete_sale i db) = db \<or> constraints_ok (fst (delete_sale i db))"
  by (auto simp: delete_sale_def commit_def split: sum.splits option.splits if_splits)

lemma expenses_constraints:
  "fst (expenses pyfloat rq db) = db \<or> constraints_ok (fst (expenses pyfloat rq db))"
  by (auto simp: expenses_def expenses_try_def bind_exn_def commit_def Let_def
      split: sum.splits option.splits if_splits)

lemma edit_expense_constraints:
  "fst (edit_expense pyfloat i rq db) = db \<or> constraints_ok (fst (edit_expense pyfloat i rq db))"
  by (auto simp: edit_expense_def edit_expense_try_def bind_exn_def commit_def Let_def
      split: sum.splits option.splits if_splits)

lemma delete_expense_constraints:
  "fst (delete_expense i db) = db \<or> constraints_ok (fst (delete_expense i db))"
  by (auto simp: delete_expense_def commit_def split: sum.splits option.splits if_splits)

lemma step_constraints: "constraints_ok db \<Longrightarrow> constraints_ok (step pyfloat db a)"
proof (cases a)
  case (Sales rq)
  then show "constraints_ok db \<Longrightarrow> ?thesis"
    using sales_constraints[of pyfloat rq db] by auto
next
  case (EditSale i rq)
  then show "constraints_ok db \<Longrightarrow> ?thesis"
    using edit_sale_constraints[of pyfloat i rq db] by auto
next
  case (DeleteSale i)
  then show "constraints_ok db \<Longrightarrow> ?thesis"
    using delete_sale_constraints[of i db] by auto
next
  case (Expenses rq)
  then show "constraints_ok db \<Longrightarrow> ?thesis"
    using expenses_constraints[of pyfloat rq db] by auto
next
  case (EditExpense i rq)
  then show "constraints_ok db \<Longrightarrow> ?thesis"
    using edit_expense_constraints[of pyfloat i rq db] by auto
next
  case (DeleteExpense i)
  then show "constraints_ok db \<Longrightarrow> ?thesis"
    using delete_expense_constraints[of i db] by auto
qed

lemma run_constraints: "constraints_ok db \<Longrightarrow> constraints_ok (run pyfloat db acts)"
  unfolding run_def
proof (induction acts arbitrary: db)
  case Nil
  then show ?case by simp
next
  case (Cons a acts)
  from Cons.prems have "constraints_ok (step pyfloat db a)" by (rule step_constraints)
  then have "constraints_ok (foldl (step pyfloat) (step pyfloat db a) acts)" by (rule Cons.IH)
  then show ?case by simp
qed

lemma constraints_ok_empty: "constraints_ok empty_db"
  by (simp add: constraints_ok_def empty_db_def)


lemma distinct_key_count:
  "distinct (map f xs) \<Longrightarrow> k \<in> f ` set xs \<Longrightarrow> length (filter (\<lambda>r. f r = k) xs) = 1"
proof (induction xs)
  case Nil
  then show ?case by simp
next
  case (Cons x xs)
  show ?case
  proof (cases "f x = k")
    case True
    with Cons.prems have "filter (\<lambda>r. f r = k) xs = []"
      by (auto simp: filter_empty_conv image_iff)
    with True show ?thesis by simp
  next
    case False
    with Cons show ?thesis by auto
  qed
qed

section \<open>Posting a sale inserts or overwrites (claim C1)\<close>

text \<open>
  Claim C1. Let a sale be posted for a date \<open>d\<close> (the submitted date parses to \<open>d\<close>,
  both amounts are numbers and not negative) on a database that meets the constraints of
  the schema. If no row has the date \<open>d\<close>, one row for \<open>d\<close> is appended; if a row has
  it, the post overwrites \<open>total_sales\<close> and \<open>daily_profit\<close> of that row and adds no
  row. Either way exactly one row for \<open>d\<close> is there afterwards. After any run of
  requests, from the empty database or from any database that meets the constraints, no
  two rows of sales have the same date.
\<close>

theorem sale_upsert_one_row_per_date:
  "(constraints_ok db \<and> rq_method rq = POST
      \<and> form rq ''sale_date'' = Some s \<and> parse_date s = Inr d
      \<and> form rq ''total_sales'' = Some a \<and> pyfloat a = Inr ts
      \<and> form rq ''daily_profit'' = Some b \<and> pyfloat b = Inr dp \<and> 0 \<le> ts \<and> 0 \<le> dp \<longrightarrow>
      (d \<notin> sale_date ` set (tbl_daily_sales db) \<longrightarrow>
         sales pyfloat rq db =
           (db\<lparr>tbl_daily_sales := tbl_daily_sales db @
                 [\<lparr>ds_id = next_id (map ds_id (tbl_daily_sales db)), sale_date = d,
                   total_sales = ts, daily_profit = dp\<rparr>]\<rparr>,
            [(''Added sale for '' @ isoformat d @ ''.'', ''success'')], Redirect ''sales''))
      \<and> (d \<in> sale_date ` set (tbl_daily_sales db) \<longrightarrow>
         sales pyfloat rq db =
           (db\<lparr>tbl_daily_sales :=
                 map (\<lambda>r. if sale_date r = d
                           then r\<lparr>total_sales := ts, daily_profit := dp\<rparr> else r)
                     (tbl_daily_sales db)\<rparr>,
            [(''Updated sale for '' @ isoformat d @ ''.'', ''info'')], Redirect ''sales''))
      \<and> length (filter (\<lambda>r. sale_date r = d) (tbl_daily_sales (fst (sales pyfloat rq db)))) = 1)
   \<and> (constraints_ok db \<longrightarrow> distinct (map sale_date (tbl_daily_sales (run pyfloat db acts))))
   \<and> distinct (map sale_date (tbl_daily_sales (run pyfloat empty_db acts)))"
proof (intro conjI impI)
  assume h: "constraints_ok db \<and> rq_method rq = POST
      \<and> form rq ''sale_date'' = Some s \<and> parse_date s = Inr d
      \<and> form rq ''total_sales'' = Some a \<and> pyfloat a = Inr ts
      \<and> form rq ''daily_profit'' = Some b \<and> pyfloat b = Inr dp \<and> 0 \<le> ts \<and> 0 \<le> dp"
  then have h': "constraints_ok db" "rq_method rq = POST"
    "form rq ''sale_date'' = Some s" "parse_date s = Inr d"
    "form rq ''total_sales'' = Some a" "pyfloat a = Inr ts"
    "form rq ''daily_profit'' = Some b" "pyfloat b = Inr dp" "0 \<le> ts" "0 \<le> dp"
    by simp_all
  note ins = sales_post_insert[OF h']
  note upd = sales_post_update[OF h']
  {
    assume "d \<notin> sale_date ` set (tbl_daily_sales db)"
    then show "sales pyfloat rq db =
           (db\<lparr>tbl_daily_sales := tbl_daily_sales db @
                 [\<lparr>ds_id = next_id (map ds_id (tbl_daily_sales db)), sale_date = d,
                   total_sales = ts, daily_profit = dp\<rparr>]\<rparr>,
            [(''Added sale for '' @ isoformat d @ ''.'', ''success'')], Redirect ''sales'')"
      by (rule ins)
  }
  {
    assume "d \<in> sale_date ` set (tbl_daily_sales db)"
    then show "sales pyfloat rq db =
           (db\<lparr>tbl_daily_sales :=
                 map (\<lambda>r. if sale_date r = d
                           then r\<lparr>total_sales := ts, daily_profit := dp\<rparr> else r)
                     (tbl_daily_sales db)\<rparr>,
            [(''Updated sale for '' @ isoformat d @ ''.'', ''info'')], Redirect ''sales'')"
      by (rule upd)
  }
  show "length (filter (\<lambda>r. sale_date r = d) (tbl_daily_sales (fst (sales pyfloat rq db)))) = 1"
  proof (rule distinct_key_count)
    from h'(1) sales_constraints[of pyfloat rq db]
    have "constraints_ok (fst (sales pyfloat rq db))" by auto
    then show "distinct (map sale_date (tbl_daily_sales (fst (sales pyfloat rq db))))"
      by (simp add: constraints_ok_def)
    show "d \<in> sale_date ` set (tbl_daily_sales (fst (sales pyfloat rq db)))"
    proof (cases "d \<in> sale_date ` set (tbl_daily_sales db)")
      case True
      then show ?thesis by (simp add: upd[OF True] image_update_amounts del: set_map)
    next
      case False
      then show ?thesis by (simp add: ins[OF False])
    qed
  qed
next
  assume "constraints_ok db"
  then have "constraints_ok (run pyfloat db acts)" by (rule run_constraints)
  then show "distinct (map sale_date (tbl_daily_sales (run pyfloat db acts)))"
    by (simp add: constraints_ok_def)
next
  have "constraints_ok (run pyfloat empty_db acts)"
    by (rule run_constraints[OF constraints_ok_empty])
  then show "distinct (map sale_date (tbl_daily_sales (run pyfloat empty_db acts)))"
    by (simp add: constraints_ok_def)
qed


lemma parse_date_2024_02_03: "parse_date ''2024-02-03'' = Inr (2024, 2, 3)"
  by code_simp

theorem sale_upsert_one_row_per_date_witness:
  "sales sample_float (post_request (sale_form ''2024-02-03'' ''40'' ''12.5'')) empty_db
     = (\<lparr>tbl_daily_sales = [sale_1], tbl_expenses = []\<rparr>,
        [(''Added sale for '' @ isoformat (2024, 2, 3) @ ''.'', ''success'')], Redirect ''sales'')
   \<and> sales sample_float (post_request (sale_form ''2024-02-03'' ''0'' ''0''))
        \<lparr>tbl_daily_sales = [sale_1], tbl_expenses = []\<rparr>
     = (\<lparr>tbl_daily_sales = [sale_1\<lparr>total_sales := 0, daily_profit := 0\<rparr>], tbl_expenses = []\<rparr>,
        [(''Updated sale for '' @ isoformat (2024, 2, 3) @ ''.'', ''info'')], Redirect ''sales'')
   \<and> distinct (map sale_date (tbl_daily_sales (run sample_float empty_db
        [Sales (post_request (sale_form ''2024-02-03'' ''40'' ''12.5'')),
         Sales (post_request (sale_form ''2024-02-03'' ''0'' ''0''))])))"
proof -
  let ?rq1 = "post_request (sale_form ''2024-02-03'' ''40'' ''12.5'')"
  let ?rq2 = "post_request (sale_form ''2024-02-03'' ''0'' ''0'')"
  let ?db1 = "\<lparr>tbl_daily_sales = [sale_1], tbl_expenses = []\<rparr>"
  have h1: "constraints_ok empty_db \<and> rq_method ?rq1 = POST
      \<and> form ?rq1 ''sale_date'' = Some ''2024-02-03'' \<and> parse_date ''2024-02-03'' = Inr (2024, 2, 3)
      \<and> form ?rq1 ''total_sales'' = Some ''40'' \<and> sample_float ''40'' = Inr 40
      \<and> form ?rq1 ''daily_profit'' = Some ''12.5'' \<and> sample_float ''12.5'' = Inr 12.5
      \<and> (0::real) \<le> 40 \<and> (0::real) \<le> 12.5"
    by (simp add: constraints_ok_empty post_request_def sale_form_def parse_date_2024_02_03
        sample_float_def)
  have n1: "(2024, 2, 3) \<notin> sale_date ` set (tbl_daily_sales empty_db)"
    by (simp add: empty_db_def)
  have h2: "constraints_ok ?db1 \<and> rq_method ?rq2 = POST
      \<and> form ?rq2 ''sale_date'' = Some ''2024-02-03'' \<and> parse_date ''2024-02-03'' = Inr (2024, 2, 3)
      \<and> form ?rq2 ''total_sales'' = Some ''0'' \<and> sample_float ''0'' = Inr 0
      \<and> form ?rq2 ''daily_profit'' = Some ''0'' \<and> sample_float ''0'' = Inr 0
      \<and> (0::real) \<le> 0 \<and> (0::real) \<le> 0"
    by (simp add: constraints_ok_def post_request_def sale_form_def parse_date_2024_02_03
        sample_float_def)
  have n2: "(2024, 2, 3) \<in> sale_date ` set (tbl_daily_sales ?db1)"
    by (simp add: sale_1_def)
  note t1 = sale_upsert_one_row_per_date[of empty_db ?rq1 "''2024-02-03''" "(2024, 2, 3)"
      "''40''" sample_float 40 "''12.5''" "12.5"
      "[Sales ?rq1, Sales ?rq2]"]
  note t2 = sale_upsert_one_row_per_date[of ?db1 ?rq2 "''2024-02-03''" "(2024, 2, 3)"
      "''0''" sample_float 0 "''0''" 0 "[]"]
  from t1 h1 n1 have a: "sales sample_float ?rq1 empty_db =
           (empty_db\<lparr>tbl_daily_sales := tbl_daily_sales empty_db @
                 [\<lparr>ds_id = next_id (map ds_id (tbl_daily_sales empty_db)), sale_date = (2024, 2, 3),
                   total_sales = 40, daily_profit = 12.5\<rparr>]\<rparr>,
            [(''Added sale for '' @ isoformat (2024, 2, 3) @ ''.'', ''success'')], Redirect ''sales'')"
    by blast
  from t2 h2 n2 have b: "sales sample_float ?rq2 ?db1 =
           (?db1\<lparr>tbl_daily_sales :=
                 map (\<lambda>r. if sale_date r = (2024, 2, 3)
                           then r\<lparr>total_sales := 0, daily_profit := 0\<rparr> else r)
                     (tbl_daily_sales ?db1)\<rparr>,
            [(''Updated sale for '' @ isoformat (2024, 2, 3) @ ''.'', ''info'')], Redirect ''sales'')"
    by blast
  from t1 have c: "distinct (map sale_date (tbl_daily_sales (run sample_float empty_db
        [Sales ?rq1, Sales ?rq2])))"
    by blast
  have a': "sales sample_float ?rq1 empty_db
     = (?db1, [(''Added sale for '' @ isoformat (2024, 2, 3) @ ''.'', ''success'')], Redirect ''sales'')"
    unfolding a by (simp add: empty_db_def next_id_def sale_1_def)
  have b': "sales sample_float ?rq2 ?db1
     = (\<lparr>tbl_daily_sales = [sale_1\<lparr>total_sales := 0, daily_profit := 0\<rparr>], tbl_expenses = []\<rparr>,
        [(''Updated sale for '' @ isoformat (2024, 2, 3) @ ''.'', ''info'')], Redirect ''sales'')"
    unfolding b by (simp add: sale_1_def)
  from a' b' c show ?thesis by blast
qed

section \<open>Outcomes of edit_sale\<close>

lemma find_by_id_Some:
  "find (\<lambda>r. ds_id r = i) rows = Some x \<Longrightarrow> x \<in> set rows \<and> ds_id x = i"
  by (auto simp: find_Some_iff in_set_conv_nth)

lemma find_other_None:
  "find (\<lambda>r. sale_date r = d \<and> ds_id r \<noteq> i) rows = None
     \<longleftrightarrow> (\<forall>r\<in>set rows. sale_date r = d \<longrightarrow> ds_id r = i)"
  by (auto simp: find_None_iff)

lemma constraints_ok_move_sale:
  assumes ok: "constraints_ok db"
    and free: "\<forall>r\<in>set (tbl_daily_sales db). sale_date r = d \<longrightarrow> ds_id r = i"
  shows "constraints_ok (db\<lparr>tbl_daily_sales :=
           map (\<lambda>r. if ds_id r = i
                     then r\<lparr>sale_date := d, total_sales := ts, daily_profit := dp\<rparr> else r)
               (tbl_daily_sales db)\<rparr>)"
proof -
  let ?upd = "\<lambda>r. if ds_id r = i
                   then r\<lparr>sale_date := d, total_sales := ts, daily_profit := dp\<rparr> else r"
  let ?rows = "tbl_daily_sales db"
  have ids: "map (ds_id \<circ> ?upd) ?rows = map ds_id ?rows"
    by (induction ?rows) auto
  from ok have dist: "distinct ?rows" and inj_id: "inj_on ds_id (set ?rows)"
    and inj_date: "inj_on sale_date (set ?rows)"
    by (auto simp: constraints_ok_def distinct_map)
  have "inj_on (sale_date \<circ> ?upd) (set ?rows)"
  proof (rule inj_onI)
    fix x y assume x: "x \<in> set ?rows" and y: "y \<in> set ?rows"
      and e: "(sale_date \<circ> ?upd) x = (sale_date \<circ> ?upd) y"
    show "x = y"
    proof (cases "ds_id x = i")
      case True
      show ?thesis
      proof (cases "ds_id y = i")
        case True
        with \<open>ds_id x = i\<close> x y inj_id show ?thesis by (auto dest: inj_onD)
      next
        case False
        with True e have "sale_date y = d" by simp
        with free y False show ?thesis by auto
      qed
    next
      case False
      show ?thesis
      proof (cases "ds_id y = i")
        case True
        with False e have "sale_date x = d" by simp
        with free x False show ?thesis by auto
      next
        case yf: False
        with False e have "sale_date x = sale_date y" by simp
        with x y inj_date show ?thesis by (auto dest: inj_onD)
      qed
    qed
  qed
  with dist have "distinct (map (sale_date \<circ> ?upd) ?rows)"
    by (simp add: distinct_map)
  with ok show ?thesis
    by (simp add: constraints_ok_def ids)
qed

lemma edit_sale_conflict:
  assumes "find (\<lambda>r. ds_id r = sale_id) (tbl_daily_sales db) = Some sale"
    and "rq_method rq = POST"
    and "form rq ''sale_date'' = Some s" "parse_date s = Inr d"
    and "form rq ''total_sales'' = Some a" "pyfloat a = Inr ts"
    and "form rq ''daily_profit'' = Some b" "pyfloat b = Inr dp"
    and "0 \<le> ts" "0 \<le> dp"
    and "other \<in> set (tbl_daily_sales db)" "sale_date other = d" "ds_id other \<noteq> sale_id"
  shows "edit_sale pyfloat sale_id rq db =
           (db, [(''Could not update sale: Another sale entry already exists for that date.'',
                  ''error'')],
            SaleEditPage sale)"
proof -
  have i: "ds_id sale = sale_id" using find_by_id_Some[OF assms(1)] by simp
  have "find (\<lambda>r. sale_date r = d \<and> ds_id r \<noteq> ds_id sale) (tbl_daily_sales db) \<noteq> None"
    using assms(11-13) i by (auto simp: find_None_iff)
  then obtain x where "find (\<lambda>r. sale_date r = d \<and> ds_id r \<noteq> ds_id sale) (tbl_daily_sales db) = Some x"
    by auto
  then show ?thesis
    using assms(1-10)
    by (simp add: edit_sale_def edit_sale_try_def form_get_def bind_exn_def not_less)
qed

lemma edit_sale_conflict_unchanged:
  assumes "form rq ''sale_date'' = Some s" "parse_date s = Inr d"
    and "other \<in> set (tbl_daily_sales db)" "sale_date other = d" "ds_id other \<noteq> sale_id"
  shows "fst (edit_sale pyfloat sale_id rq db) = db"
proof (cases "find (\<lambda>r. ds_id r = sale_id) (tbl_daily_sales db)")
  case None
  then show ?thesis by (simp add: edit_sale_def)
next
  case (Some sale)
  have i: "ds_id sale = sale_id" using find_by_id_Some[OF Some] by simp
  have "find (\<lambda>r. sale_date r = d \<and> ds_id r \<noteq> ds_id sale) (tbl_daily_sales db) \<noteq> None"
    using assms(3-5) i by (auto simp: find_None_iff)
  then obtain x where "find (\<lambda>r. sale_date r = d \<and> ds_id r \<noteq> ds_id sale) (tbl_daily_sales db) = Some x"
    by auto
  then show ?thesis
    using assms(1,2) Some
    by (auto simp: edit_sale_def edit_sale_try_def form_get_def bind_exn_def
        split: sum.splits option.splits)
qed

lemma edit_sale_negative:
  assumes "find (\<lambda>r. ds_id r = sale_id) (tbl_daily_sales db) = Some sale"
    and "rq_method rq = POST"
    and "form rq ''sale_date'' = Some s" "parse_date s = Inr d"
    and "form rq ''total_sales'' = Some a" "pyfloat a = Inr ts"
    and "form rq ''daily_profit'' = Some b" "pyfloat b = Inr dp"
    and "ts < 0 \<or> dp < 0"
  shows "edit_sale pyfloat sale_id rq db =
           (db, [(''Could not update sale: Values must be non-negative.'', ''error'')],
            SaleEditPage sale)"
  using assms by (auto simp: edit_sale_def edit_sale_try_def form_get_def bind_exn_def)

lemma edit_sale_negative_unchanged:
  assumes "form rq ''total_sales'' = Some a" "pyfloat a = Inr ts"
    and "form rq ''daily_profit'' = Some b" "pyfloat b = Inr dp"
    and "ts < 0 \<or> dp < 0"
  shows "fst (edit_sale pyfloat sale_id rq db) = db"
  using assms
  by (auto simp: edit_sale_def edit_sale_try_def form_get_def bind_exn_def
      split: sum.splits option.splits)

lemma edit_sale_accepted:
  assumes "constraints_ok db"
    and "find (\<lambda>r. ds_id r = sale_id) (tbl_daily_sales db) = Some sale"
    and "rq_method rq = POST"
    and "form rq ''sale_date'' = Some s" "parse_date s = Inr d"
    and "form rq ''total_sales'' = Some a" "pyfloat a = Inr ts"
    and "form rq ''daily_profit'' = Some b" "pyfloat b = Inr dp"
    and "0 \<le> ts" "0 \<le> dp"
    and "\<forall>r\<in>set (tbl_daily_sales db). sale_date r = d \<longrightarrow> ds_id r = sale_id"
  shows "edit_sale pyfloat sale_id rq db =
           (db\<lparr>tbl_daily_sales :=
                 map (\<lambda>r. if ds_id r = sale_id
                           then r\<lparr>sale_date := d, total_sales := ts, daily_profit := dp\<rparr>
                           else r)
                     (tbl_daily_sales db)\<rparr>,
            [(''Sale updated.'', ''success'')], Redirect ''sales'')"
proof -
  have i: "ds_id sale = sale_id" using find_by_id_Some[OF assms(2)] by simp
  have n: "find (\<lambda>r. sale_date r = d \<and> ds_id r \<noteq> sale_id) (tbl_daily_sales db) = None"
    using assms(12) by (simp add: find_other_None)
  show ?thesis
    using assms(2-11) i
      constraints_ok_move_sale[OF assms(1) assms(12), where ts = ts and dp = dp]
    by (simp add: edit_sale_def edit_sale_try_def form_get_def bind_exn_def n commit_ok not_less)
qed

section \<open>Outcomes of expenses and edit_expense\<close>

lemma find_exp_by_id_Some:
  "find (\<lambda>r. exp_id r = i) rows = Some x \<Longrightarrow> x \<in> set rows \<and> exp_id x = i"
  by (auto simp: find_Some_iff in_set_conv_nth)

lemma expenses_negative:
  assumes "rq_method rq = POST"
    and "form rq ''expense_date'' = Some s" "parse_date s = Inr d"
    and "form rq ''description'' = Some raw" "py_strip raw \<noteq> []"
    and "form rq ''amount'' = Some a" "pyfloat a = Inr amt" "amt < 0"
  shows "expenses pyfloat rq db =
           (db, [(''Could not save expense: Amount must be non-negative.'', ''error'')],
            Redirect ''expenses'')"
  using assms by (simp add: expenses_def expenses_try_def form_get_def bind_exn_def)

lemma expenses_negative_unchanged:
  assumes "form rq ''amount'' = Some a" "pyfloat a = Inr amt" "amt < 0"
  shows "fst (expenses pyfloat rq db) = db"
  using assms
  by (auto simp: expenses_def expenses_try_def form_get_def bind_exn_def Let_def
      split: sum.splits option.splits)

lemma expenses_accepted:
  assumes "constraints_ok db" "rq_method rq = POST"
    and "form rq ''expense_date'' = Some s" "parse_date s = Inr d"
    and "form rq ''description'' = Some raw" "py_strip raw \<noteq> []"
    and "form rq ''amount'' = Some a" "pyfloat a = Inr amt" "0 \<le> amt"
  shows "expenses pyfloat rq db =
           (db\<lparr>tbl_expenses := tbl_expenses db @
                 [\<lparr>exp_id = next_id (map exp_id (tbl_expenses db)), expense_date = d,
                   description = py_strip raw, amount = amt\<rparr>]\<rparr>,
            [(''Added expense.'', ''success'')], Redirect ''expenses'')"
proof -
  have "constraints_ok (db\<lparr>tbl_expenses := tbl_expenses db @
                 [\<lparr>exp_id = next_id (map exp_id (tbl_expenses db)), expense_date = d,
                   description = py_strip raw, amount = amt\<rparr>]\<rparr>)"
    using assms(1) next_id_fresh[of "map exp_id (tbl_expenses db)"]
    by (auto simp: constraints_ok_def)
  then show ?thesis
    using assms(2-9)
    by (simp add: expenses_def expenses_try_def form_get_def bind_exn_def commit_ok not_less)
qed

lemma edit_expense_negative:
  assumes "find (\<lambda>r. exp_id r = expense_id) (tbl_expenses db) = Some row"
    and "rq_method rq = POST"
    and "form rq ''expense_date'' = Some s" "parse_date s = Inr d"
    and "form rq ''description'' = Some raw" "py_strip raw \<noteq> []"
    and "form rq ''amount'' = Some a" "pyfloat a = Inr amt" "amt < 0"
  shows "edit_expense pyfloat expense_id rq db =
           (db, [(''Could not update expense: Amount must be non-negative.'', ''error'')],
            ExpenseEditPage row)"
  using assms by (simp add: edit_expense_def edit_expense_try_def form_get_def bind_exn_def)

lemma edit_expense_negative_unchanged:
  assumes "form rq ''amount'' = Some a" "pyfloat a = Inr amt" "amt < 0"
  shows "fst (edit_expense pyfloat expense_id rq db) = db"
  using assms
  by (auto simp: edit_expense_def edit_expense_try_def form_get_def bind_exn_def Let_def
      split: sum.splits option.splits)

lemma edit_expense_accepted:
  assumes "constraints_ok db"
    and "find (\<lambda>r. exp_id r = expense_id) (tbl_expenses db) = Some row"
    and "rq_method rq = POST"
    and "form rq ''expense_date'' = Some s" "parse_date s = Inr d"
    and "form rq ''description'' = Some raw" "py_strip raw \<noteq> []"
    and "form rq ''amount'' = Some a" "pyfloat a = Inr amt" "0 \<le> amt"
  shows "edit_expense pyfloat expense_id rq db =
           (db\<lparr>tbl_expenses :=
                 map (\<lambda>r. if exp_id r = expense_id
                           then r\<lparr>expense_date := d, description := py_strip raw, amount := amt\<rparr>
                           else r)
                     (tbl_expenses db)\<rparr>,
            [(''Expense updated.'', ''success'')], Redirect ''expenses'')"
proof -
  let ?upd = "\<lambda>r. if exp_id r = expense_id
                   then r\<lparr>expense_date := d, description := py_strip raw, amount := amt\<rparr> else r"
  have i: "exp_id row = expense_id" using find_exp_by_id_Some[OF assms(2)] by simp
  have ids: "map (exp_id \<circ> ?upd) (tbl_expenses db) = map exp_id (tbl_expenses db)"
    by (induction "tbl_expenses db") auto
  from assms(1) have "constraints_ok (db\<lparr>tbl_expenses := map ?upd (tbl_expenses db)\<rparr>)"
    by (simp add: constraints_ok_def ids)
  then show ?thesis
    using assms(2-10) i
    by (simp add: edit_expense_def edit_expense_try_def form_get_def bind_exn_def commit_ok
        not_less)
qed

lemma find_by_key_self:
  "distinct (map f xs) \<Longrightarrow> x \<in> set xs \<Longrightarrow> find (\<lambda>r. f r = f x) xs = Some x"
  by (induction xs) (auto simp: image_iff)

section \<open>Editing a sale onto a date that is taken (claim C3)\<close>

text \<open>
  Claim C3. Let \<open>sale\<close> and \<open>other\<close> be two rows of sales with different ids, and let
  an edit of \<open>sale\<close> be posted whose date parses to the date of \<open>other\<close>. Then the
  database is left as it was, with both rows in it, whatever the amounts are; and when
  the amounts are numbers and not negative, the view flashes the conflict message as an
  error and shows the edit page again.
\<close>

theorem edit_sale_conflict_rejected:
  "constraints_ok db \<and> sale \<in> set (tbl_daily_sales db) \<and> other \<in> set (tbl_daily_sales db)
     \<and> ds_id other \<noteq> ds_id sale \<and> sale_date other = d
     \<and> rq_method rq = POST \<and> form rq ''sale_date'' = Some s \<and> parse_date s = Inr d \<longrightarrow>
     fst (edit_sale pyfloat (ds_id sale) rq db) = db
     \<and> sale \<in> set (tbl_daily_sales (fst (edit_sale pyfloat (ds_id sale) rq db)))
     \<and> other \<in> set (tbl_daily_sales (fst (edit_sale pyfloat (ds_id sale) rq db)))
     \<and> (form rq ''total_sales'' = Some a \<and> pyfloat a = Inr ts
          \<and> form rq ''daily_profit'' = Some b \<and> pyfloat b = Inr dp \<and> 0 \<le> ts \<and> 0 \<le> dp \<longrightarrow>
          edit_sale pyfloat (ds_id sale) rq db =
            (db, [(''Could not update sale: Another sale entry already exists for that date.'',
                   ''error'')],
             SaleEditPage sale))"
proof (intro impI)
  assume h: "constraints_ok db \<and> sale \<in> set (tbl_daily_sales db)
     \<and> other \<in> set (tbl_daily_sales db)
     \<and> ds_id other \<noteq> ds_id sale \<and> sale_date other = d
     \<and> rq_method rq = POST \<and> form rq ''sale_date'' = Some s \<and> parse_date s = Inr d"
  then have ok: "constraints_ok db" and s: "sale \<in> set (tbl_daily_sales db)"
    and o: "other \<in> set (tbl_daily_sales db)" "sale_date other = d" "ds_id other \<noteq> ds_id sale"
    and p: "rq_method rq = POST" and f: "form rq ''sale_date'' = Some s" "parse_date s = Inr d"
    by simp_all
  have found: "find (\<lambda>r. ds_id r = ds_id sale) (tbl_daily_sales db) = Some sale"
    using ok s by (intro find_by_key_self) (simp_all add: constraints_ok_def)
  have same: "fst (edit_sale pyfloat (ds_id sale) rq db) = db"
    by (rule edit_sale_conflict_unchanged[OF f o])
  show "fst (edit_sale pyfloat (ds_id sale) rq db) = db
     \<and> sale \<in> set (tbl_daily_sales (fst (edit_sale pyfloat (ds_id sale) rq db)))
     \<and> other \<in> set (tbl_daily_sales (fst (edit_sale pyfloat (ds_id sale) rq db)))
     \<and> (form rq ''total_sales'' = Some a \<and> pyfloat a = Inr ts
          \<and> form rq ''daily_profit'' = Some b \<and> pyfloat b = Inr dp \<and> 0 \<le> ts \<and> 0 \<le> dp \<longrightarrow>
          edit_sale pyfloat (ds_id sale) rq db =
            (db, [(''Could not update sale: Another sale entry already exists for that date.'',
                   ''error'')],
             SaleEditPage sale))"
  proof (intro conjI impI)
    show "fst (edit_sale pyfloat (ds_id sale) rq db) = db" by (rule same)
    show "sale \<in> set (tbl_daily_sales (fst (edit_sale pyfloat (ds_id sale) rq db)))"
      using s by (simp add: same)
    show "other \<in> set (tbl_daily_sales (fst (edit_sale pyfloat (ds_id sale) rq db)))"
      using o(1) by (simp add: same)
  next
    assume v: "form rq ''total_sales'' = Some a \<and> pyfloat a = Inr ts
          \<and> form rq ''daily_profit'' = Some b \<and> pyfloat b = Inr dp \<and> 0 \<le> ts \<and> 0 \<le> dp"
    then have v': "form rq ''total_sales'' = Some a" "pyfloat a = Inr ts"
      "form rq ''daily_profit'' = Some b" "pyfloat b = Inr dp" "0 \<le> ts" "0 \<le> dp"
      by simp_all
    show "edit_sale pyfloat (ds_id sale) rq db =
            (db, [(''Could not update sale: Another sale entry already exists for that date.'',
                   ''error'')],
             SaleEditPage sale)"
      by (rule edit_sale_conflict[OF found p f v' o])
  qed
qed

lemma parse_date_2024_02_01: "parse_date ''2024-02-01'' = Inr (2024, 2, 1)"
  by code_simp

lemma constraints_ok_sample: "constraints_ok sample_db"
  by (simp add: constraints_ok_def sample_defs)

theorem edit_sale_conflict_rejected_witness:
  "edit_sale sample_float 1 (post_request (sale_form ''2024-02-01'' ''40'' ''0'')) sample_db
     = (sample_db,
        [(''Could not update sale: Another sale entry already exists for that date.'', ''error'')],
        SaleEditPage sale_1)
   \<and> tbl_daily_sales
        (fst (edit_sale sample_float 1 (post_request (sale_form ''2024-02-01'' ''40'' ''0''))
               sample_db))
     = [sale_1, sale_2]"
proof -
  let ?rq = "post_request (sale_form ''2024-02-01'' ''40'' ''0'')"
  have h: "constraints_ok sample_db \<and> sale_1 \<in> set (tbl_daily_sales sample_db)
     \<and> sale_2 \<in> set (tbl_daily_sales sample_db)
     \<and> ds_id sale_2 \<noteq> ds_id sale_1 \<and> sale_date sale_2 = (2024, 2, 1)
     \<and> rq_method ?rq = POST \<and> form ?rq ''sale_date'' = Some ''2024-02-01''
     \<and> parse_date ''2024-02-01'' = Inr (2024, 2, 1)"
    using constraints_ok_sample parse_date_2024_02_01 by (simp add: sample_defs sale_form_def)
  have v: "form ?rq ''total_sales'' = Some ''40'' \<and> sample_float ''40'' = Inr 40
          \<and> form ?rq ''daily_profit'' = Some ''0'' \<and> sample_float ''0'' = Inr 0
          \<and> (0::real) \<le> 40 \<and> (0::real) \<le> 0"
    by (simp add: sample_defs sale_form_def sample_float_def)
  note t = edit_sale_conflict_rejected[of sample_db sale_1 sale_2 "(2024, 2, 1)" ?rq
      "''2024-02-01''" sample_float "''40''" 40 "''0''" 0]
  from t h v have a: "edit_sale sample_float (ds_id sale_1) ?rq sample_db =
            (sample_db,
             [(''Could not update sale: Another sale entry already exists for that date.'',
               ''error'')],
             SaleEditPage sale_1)"
    by blast
  have i: "ds_id sale_1 = 1" by (simp add: sale_1_def)
  from a show ?thesis by (simp add: i sample_db_def)
qed

section \<open>Negative amounts and zero (claim C4)\<close>

text \<open>
  Claim C4. A posted sale, or a posted edit of an existing sale, with a negative
  \<open>total_sales\<close> or \<open>daily_profit\<close> is answered by the error message that values must
  be non-negative and changes nothing; a posted expense, or a posted edit of an existing
  expense, with a negative amount likewise. The other fields are taken to be valid (a
  date that parses, a description that is not blank) so that the amount is what is
  judged; whatever they are, a negative amount leaves the database as it was. Amounts
  that are not negative, zero among them, are accepted and stored: the sale for the
  date then carries them, the edited sale does when no other row owns the date, and the
  new or edited expense does.
\<close>

theorem negative_rejected_zero_accepted:
  "(rq_method rq = POST \<and> form rq ''sale_date'' = Some s \<and> parse_date s = Inr d
      \<and> form rq ''total_sales'' = Some a \<and> pyfloat a = Inr ts
      \<and> form rq ''daily_profit'' = Some b \<and> pyfloat b = Inr dp \<longrightarrow>
      (ts < 0 \<or> dp < 0 \<longrightarrow>
         sales pyfloat rq db =
           (db, [(''Could not save sale: Values must be non-negative.'', ''error'')],
            Redirect ''sales'')
         \<and> (find (\<lambda>r. ds_id r = sale_id) (tbl_daily_sales db) = Some sale \<longrightarrow>
              edit_sale pyfloat sale_id rq db =
                (db, [(''Could not update sale: Values must be non-negative.'', ''error'')],
                 SaleEditPage sale)))
      \<and> (constraints_ok db \<and> 0 \<le> ts \<and> 0 \<le> dp \<longrightarrow>
         (\<exists>r\<in>set (tbl_daily_sales (fst (sales pyfloat rq db))).
            sale_date r = d \<and> total_sales r = ts \<and> daily_profit r = dp)
         \<and> (find (\<lambda>r. ds_id r = sale_id) (tbl_daily_sales db) = Some sale
              \<and> (\<forall>r\<in>set (tbl_daily_sales db). sale_date r = d \<longrightarrow> ds_id r = sale_id) \<longrightarrow>
              edit_sale pyfloat sale_id rq db =
                (db\<lparr>tbl_daily_sales :=
                      map (\<lambda>r. if ds_id r = sale_id
                                then r\<lparr>sale_date := d, total_sales := ts, daily_profit := dp\<rparr>
                                else r)
                          (tbl_daily_sales db)\<rparr>,
                 [(''Sale updated.'', ''success'')], Redirect ''sales''))))
   \<and> (rq_method rq' = POST \<and> form rq' ''expense_date'' = Some s' \<and> parse_date s' = Inr d'
      \<and> form rq' ''description'' = Some raw \<and> py_strip raw \<noteq> []
      \<and> form rq' ''amount'' = Some a' \<and> pyfloat a' = Inr amt \<longrightarrow>
      (amt < 0 \<longrightarrow>
         expenses pyfloat rq' db =
           (db, [(''Could not save expense: Amount must be non-negative.'', ''error'')],
            Redirect ''expenses'')
         \<and> (find (\<lambda>r. exp_id r = expense_id) (tbl_expenses db) = Some row \<longrightarrow>
              edit_expense pyfloat expense_id rq' db =
                (db, [(''Could not update expense: Amount must be non-negative.'', ''error'')],
                 ExpenseEditPage row)))
      \<and> (constraints_ok db \<and> 0 \<le> amt \<longrightarrow>
         expenses pyfloat rq' db =
           (db\<lparr>tbl_expenses := tbl_expenses db @
                 [\<lparr>exp_id = next_id (map exp_id (tbl_expenses db)), expense_date = d',
                   description = py_strip raw, amount = amt\<rparr>]\<rparr>,
            [(''Added expense.'', ''success'')], Redirect ''expenses'')
         \<and> (find (\<lambda>r. exp_id r = expense_id) (tbl_expenses db) = Some row \<longrightarrow>
              edit_expense pyfloat expense_id rq' db =
                (db\<lparr>tbl_expenses :=
                      map (\<lambda>r. if exp_id r = expense_id
                                then r\<lparr>expense_date := d', description := py_strip raw,
                                        amount := amt\<rparr>
                                else r)
                          (tbl_expenses db)\<rparr>,
                 [(''Expense updated.'', ''success'')], Redirect ''expenses''))))
   \<and> (form rq ''total_sales'' = Some a \<and> pyfloat a = Inr ts
      \<and> form rq ''daily_profit'' = Some b \<and> pyfloat b = Inr dp \<and> (ts < 0 \<or> dp < 0) \<longrightarrow>
      fst (sales pyfloat rq db) = db \<and> fst (edit_sale pyfloat sale_id rq db) = db)
   \<and> (form rq' ''amount'' = Some a' \<and> pyfloat a' = Inr amt \<and> amt < 0 \<longrightarrow>
      fst (expenses pyfloat rq' db) = db \<and> fst (edit_expense pyfloat expense_id rq' db) = db)"
proof -
  have sale_part:
    "(ts < 0 \<or> dp < 0 \<longrightarrow>
         sales pyfloat rq db =
           (db, [(''Could not save sale: Values must be non-negative.'', ''error'')],
            Redirect ''sales'')
         \<and> (find (\<lambda>r. ds_id r = sale_id) (tbl_daily_sales db) = Some sale \<longrightarrow>
              edit_sale pyfloat sale_id rq db =
                (db, [(''Could not update sale: Values must be non-negative.'', ''error'')],
                 SaleEditPage sale)))
      \<and> (constraints_ok db \<and> 0 \<le> ts \<and> 0 \<le> dp \<longrightarrow>
         (\<exists>r\<in>set (tbl_daily_sales (fst (sales pyfloat rq db))).
            sale_date r = d \<and> total_sales r = ts \<and> daily_profit r = dp)
         \<and> (find (\<lambda>r. ds_id r = sale_id) (tbl_daily_sales db) = Some sale
              \<and> (\<forall>r\<in>set (tbl_daily_sales db). sale_date r = d \<longrightarrow> ds_id r = sale_id) \<longrightarrow>
              edit_sale pyfloat sale_id rq db =
                (db\<lparr>tbl_daily_sales :=
                      map (\<lambda>r. if ds_id r = sale_id
                                then r\<lparr>sale_date := d, total_sales := ts, daily_profit := dp\<rparr>
                                else r)
                          (tbl_daily_sales db)\<rparr>,
                 [(''Sale updated.'', ''success'')], Redirect ''sales'')))"
    if h: "rq_method rq = POST \<and> form rq ''sale_date'' = Some s \<and> parse_date s = Inr d
      \<and> form rq ''total_sales'' = Some a \<and> pyfloat a = Inr ts
      \<and> form rq ''daily_profit'' = Some b \<and> pyfloat b = Inr dp"
  proof -
    from h have p: "rq_method rq = POST"
      and f: "form rq ''sale_date'' = Some s" "parse_date s = Inr d"
        "form rq ''total_sales'' = Some a" "pyfloat a = Inr ts"
        "form rq ''daily_profit'' = Some b" "pyfloat b = Inr dp"
      by simp_all
    have n1: "sales pyfloat rq db =
           (db, [(''Could not save sale: Values must be non-negative.'', ''error'')],
            Redirect ''sales'')" if "ts < 0 \<or> dp < 0"
      by (rule sales_post_negative[where pyfloat = pyfloat, OF p f that])
    have n2: "edit_sale pyfloat sale_id rq db =
                (db, [(''Could not update sale: Values must be non-negative.'', ''error'')],
                 SaleEditPage sale)"
      if "ts < 0 \<or> dp < 0" "find (\<lambda>r. ds_id r = sale_id) (tbl_daily_sales db) = Some sale"
      by (rule edit_sale_negative[where pyfloat = pyfloat, OF that(2) p f that(1)])
    have z1: "\<exists>r\<in>set (tbl_daily_sales (fst (sales pyfloat rq db))).
            sale_date r = d \<and> total_sales r = ts \<and> daily_profit r = dp"
      if ok: "constraints_ok db" and nn: "0 \<le> ts" "0 \<le> dp"
    proof (cases "d \<in> sale_date ` set (tbl_daily_sales db)")
      case True
      then obtain x where x: "x \<in> set (tbl_daily_sales db)" "sale_date x = d" by auto
      let ?x' = "x\<lparr>total_sales := ts, daily_profit := dp\<rparr>"
      have "?x' \<in> set (tbl_daily_sales (fst (sales pyfloat rq db)))"
        using x by (force simp: sales_post_update[where pyfloat = pyfloat, OF ok p f nn True] image_iff)
      moreover have "sale_date ?x' = d \<and> total_sales ?x' = ts \<and> daily_profit ?x' = dp"
        using x by simp
      ultimately show ?thesis by blast
    next
      case False
      show ?thesis by (simp add: sales_post_insert[where pyfloat = pyfloat, OF ok p f nn False])
    qed
    have z2: "edit_sale pyfloat sale_id rq db =
                (db\<lparr>tbl_daily_sales :=
                      map (\<lambda>r. if ds_id r = sale_id
                                then r\<lparr>sale_date := d, total_sales := ts, daily_profit := dp\<rparr>
                                else r)
                          (tbl_daily_sales db)\<rparr>,
                 [(''Sale updated.'', ''success'')], Redirect ''sales'')"
      if "constraints_ok db" "0 \<le> ts" "0 \<le> dp"
        "find (\<lambda>r. ds_id r = sale_id) (tbl_daily_sales db) = Some sale"
        "\<forall>r\<in>set (tbl_daily_sales db). sale_date r = d \<longrightarrow> ds_id r = sale_id"
      by (rule edit_sale_accepted[where pyfloat = pyfloat, OF that(1) that(4) p f that(2,3,5)])
    from n1 n2 z1 z2 show ?thesis by blast
  qed
  have expense_part:
    "(amt < 0 \<longrightarrow>
         expenses pyfloat rq' db =
           (db, [(''Could not save expense: Amount must be non-negative.'', ''error'')],
            Redirect ''expenses'')
         \<and> (find (\<lambda>r. exp_id r = expense_id) (tbl_expenses db) = Some row \<longrightarrow>
              edit_expense pyfloat expense_id rq' db =
                (db, [(''Could not update expense: Amount must be non-negative.'', ''error'')],
                 ExpenseEditPage row)))
      \<and> (constraints_ok db \<and> 0 \<le> amt \<longrightarrow>
         expenses pyfloat rq' db =
           (db\<lparr>tbl_expenses := tbl_expenses db @
                 [\<lparr>exp_id = next_id (map exp_id (tbl_expenses db)), expense_date = d',
                   description = py_strip raw, amount = amt\<rparr>]\<rparr>,
            [(''Added expense.'', ''success'')], Redirect ''expenses'')
         \<and> (find (\<lambda>r. exp_id r = expense_id) (tbl_expenses db) = Some row \<longrightarrow>
              edit_expense pyfloat expense_id rq' db =
                (db\<lparr>tbl_expenses :=
                      map (\<lambda>r. if exp_id r = expense_id
                                then r\<lparr>expense_date := d', description := py_strip raw,
                                        amount := amt\<rparr>
                                else r)
                          (tbl_expenses db)\<rparr>,
                 [(''Expense updated.'', ''success'')], Redirect ''expenses'')))"
    if h: "rq_method rq' = POST \<and> form rq' ''expense_date'' = Some s' \<and> parse_date s' = Inr d'
      \<and> form rq' ''description'' = Some raw \<and> py_strip raw \<noteq> []
      \<and> form rq' ''amount'' = Some a' \<and> pyfloat a' = Inr amt"
  proof -
    from h have p: "rq_method rq' = POST"
      and f: "form rq' ''expense_date'' = Some s'" "parse_date s' = Inr d'"
        "form rq' ''description'' = Some raw" "py_strip raw \<noteq> []"
        "form rq' ''amount'' = Some a'" "pyfloat a' = Inr amt"
      by simp_all
    have n1: "expenses pyfloat rq' db =
           (db, [(''Could not save expense: Amount must be non-negative.'', ''error'')],
            Redirect ''expenses'')" if "amt < 0"
      by (rule expenses_negative[where pyfloat = pyfloat, OF p f that])
    have n2: "edit_expense pyfloat expense_id rq' db =
                (db, [(''Could not update expense: Amount must be non-negative.'', ''error'')],
                 ExpenseEditPage row)"
      if "amt < 0" "find (\<lambda>r. exp_id r = expense_id) (tbl_expenses db) = Some row"
      by (rule edit_expense_negative[where pyfloat = pyfloat, OF that(2) p f that(1)])
    have z1: "expenses pyfloat rq' db =
           (db\<lparr>tbl_expenses := tbl_expenses db @
                 [\<lparr>exp_id = next_id (map exp_id (tbl_expenses db)), expense_date = d',
                   description = py_strip raw, amount = amt\<rparr>]\<rparr>,
            [(''Added expense.'', ''success'')], Redirect ''expenses'')"
      if "constraints_ok db" "0 \<le> amt"
      by (rule expenses_accepted[where pyfloat = pyfloat, OF that(1) p f that(2)])
    have z2: "edit_expense pyfloat expense_id rq' db =
                (db\<lparr>tbl_expenses :=
                      map (\<lambda>r. if exp_id r = expense_id
                                then r\<lparr>expense_date := d', description := py_strip raw,
                                        amount := amt\<rparr>
                                else r)
                          (tbl_expenses db)\<rparr>,
                 [(''Expense updated.'', ''success'')], Redirect ''expenses'')"
      if "constraints_ok db" "0 \<le> amt"
        "find (\<lambda>r. exp_id r = expense_id) (tbl_expenses db) = Some row"
      by (rule edit_expense_accepted[where pyfloat = pyfloat, OF that(1) that(3) p f that(2)])
    from n1 n2 z1 z2 show ?thesis by blast
  qed
  have sale_frame: "fst (sales pyfloat rq db) = db \<and> fst (edit_sale pyfloat sale_id rq db) = db"
    if "form rq ''total_sales'' = Some a \<and> pyfloat a = Inr ts
      \<and> form rq ''daily_profit'' = Some b \<and> pyfloat b = Inr dp \<and> (ts < 0 \<or> dp < 0)"
    using that sales_negative_unchanged[of rq a pyfloat ts b dp db]
      edit_sale_negative_unchanged[of rq a pyfloat ts b dp sale_id db]
    by blast
  have expense_frame:
    "fst (expenses pyfloat rq' db) = db \<and> fst (edit_expense pyfloat expense_id rq' db) = db"
    if "form rq' ''amount'' = Some a' \<and> pyfloat a' = Inr amt \<and> amt < 0"
    using that expenses_negative_unchanged[of rq' a' pyfloat amt db]
      edit_expense_negative_unchanged[of rq' a' pyfloat amt expense_id db]
    by blast
  from sale_part expense_part sale_frame expense_frame show ?thesis by blast
qed


lemma py_strip_ice: "py_strip '' ice '' = ''ice''"
  by code_simp

lemma find_sample_sale_1: "find (\<lambda>r. ds_id r = 1) (tbl_daily_sales sample_db) = Some sale_1"
  by (simp add: sample_defs)

lemma find_sample_expense_1: "find (\<lambda>r. exp_id r = 1) (tbl_expenses sample_db) = Some expense_1"
  by (simp add: sample_defs)

theorem negative_rejected_zero_accepted_witness:
  "sales sample_float (post_request (sale_form ''2024-02-03'' ''-1'' ''0'')) sample_db
     = (sample_db, [(''Could not save sale: Values must be non-negative.'', ''error'')],
        Redirect ''sales'')
   \<and> edit_sale sample_float 1 (post_request (sale_form ''2024-02-03'' ''-1'' ''0'')) sample_db
     = (sample_db, [(''Could not update sale: Values must be non-negative.'', ''error'')],
        SaleEditPage sale_1)
   \<and> expenses sample_float (post_request (expense_form ''2024-02-03'' '' ice '' ''-1'')) sample_db
     = (sample_db, [(''Could not save expense: Amount must be non-negative.'', ''error'')],
        Redirect ''expenses'')
   \<and> edit_expense sample_float 1 (post_request (expense_form ''2024-02-03'' '' ice '' ''-1''))
        sample_db
     = (sample_db, [(''Could not update expense: Amount must be non-negative.'', ''error'')],
        ExpenseEditPage expense_1)
   \<and> (\<exists>r\<in>set (tbl_daily_sales
          (fst (sales sample_float (post_request (sale_form ''2024-02-03'' ''0'' ''0''))
                 sample_db))).
         sale_date r = (2024, 2, 3) \<and> total_sales r = 0 \<and> daily_profit r = 0)
   \<and> edit_sale sample_float 1 (post_request (sale_form ''2024-02-03'' ''0'' ''0'')) sample_db
     = (\<lparr>tbl_daily_sales = [sale_1\<lparr>total_sales := 0, daily_profit := 0\<rparr>, sale_2],
         tbl_expenses = [expense_1, expense_2]\<rparr>,
        [(''Sale updated.'', ''success'')], Redirect ''sales'')
   \<and> expenses sample_float (post_request (expense_form ''2024-02-03'' '' ice '' ''0'')) sample_db
     = (\<lparr>tbl_daily_sales = [sale_1, sale_2],
         tbl_expenses = [expense_1, expense_2,
           \<lparr>exp_id = 3, expense_date = (2024, 2, 3), description = ''ice'', amount = 0\<rparr>]\<rparr>,
        [(''Added expense.'', ''success'')], Redirect ''expenses'')
   \<and> edit_expense sample_float 1 (post_request (expense_form ''2024-02-03'' '' ice '' ''0''))
        sample_db
     = (\<lparr>tbl_daily_sales = [sale_1, sale_2],
         tbl_expenses =
           [\<lparr>exp_id = 1, expense_date = (2024, 2, 3), description = ''ice'', amount = 0\<rparr>,
            expense_2]\<rparr>,
        [(''Expense updated.'', ''success'')], Redirect ''expenses'')"
proof -
  let ?sn = "post_request (sale_form ''2024-02-03'' ''-1'' ''0'')"
  let ?sz = "post_request (sale_form ''2024-02-03'' ''0'' ''0'')"
  let ?en = "post_request (expense_form ''2024-02-03'' '' ice '' ''-1'')"
  let ?ez = "post_request (expense_form ''2024-02-03'' '' ice '' ''0'')"
  have hsn: "rq_method ?sn = POST \<and> form ?sn ''sale_date'' = Some ''2024-02-03''
      \<and> parse_date ''2024-02-03'' = Inr (2024, 2, 3)
      \<and> form ?sn ''total_sales'' = Some ''-1'' \<and> sample_float ''-1'' = Inr (- 1)
      \<and> form ?sn ''daily_profit'' = Some ''0'' \<and> sample_float ''0'' = Inr 0"
    using parse_date_2024_02_03 by (simp add: post_request_def sale_form_def sample_float_def)
  have hsz: "rq_method ?sz = POST \<and> form ?sz ''sale_date'' = Some ''2024-02-03''
      \<and> parse_date ''2024-02-03'' = Inr (2024, 2, 3)
      \<and> form ?sz ''total_sales'' = Some ''0'' \<and> sample_float ''0'' = Inr 0
      \<and> form ?sz ''daily_profit'' = Some ''0'' \<and> sample_float ''0'' = Inr 0"
    using parse_date_2024_02_03 by (simp add: post_request_def sale_form_def sample_float_def)
  have hen: "rq_method ?en = POST \<and> form ?en ''expense_date'' = Some ''2024-02-03''
      \<and> parse_date ''2024-02-03'' = Inr (2024, 2, 3)
      \<and> form ?en ''description'' = Some '' ice '' \<and> py_strip '' ice '' \<noteq> []
      \<and> form ?en ''amount'' = Some ''-1'' \<and> sample_float ''-1'' = Inr (- 1)"
    using parse_date_2024_02_03
    by (simp add: post_request_def expense_form_def sample_float_def py_strip_ice)
  have hez: "rq_method ?ez = POST \<and> form ?ez ''expense_date'' = Some ''2024-02-03''
      \<and> parse_date ''2024-02-03'' = Inr (2024, 2, 3)
      \<and> form ?ez ''description'' = Some '' ice '' \<and> py_strip '' ice '' \<noteq> []
      \<and> form ?ez ''amount'' = Some ''0'' \<and> sample_float ''0'' = Inr 0"
    using parse_date_2024_02_03
    by (simp add: post_request_def expense_form_def sample_float_def py_strip_ice)
  have own: "\<forall>r\<in>set (tbl_daily_sales sample_db). sale_date r = (2024, 2, 3) \<longrightarrow> ds_id r = 1"
    by (simp add: sample_defs)
  note ok = constraints_ok_sample
  note fs = find_sample_sale_1
  note fe = find_sample_expense_1
  note tn = negative_rejected_zero_accepted[of ?sn "''2024-02-03''" "(2024, 2, 3)" "''-1''"
      sample_float "- 1" "''0''" 0 sample_db 1 sale_1 ?en "''2024-02-03''" "(2024, 2, 3)"
      "'' ice ''" "''-1''" "- 1" 1 expense_1]
  note tz = negative_rejected_zero_accepted[of ?sz "''2024-02-03''" "(2024, 2, 3)" "''0''"
      sample_float 0 "''0''" 0 sample_db 1 sale_1 ?ez "''2024-02-03''" "(2024, 2, 3)"
      "'' ice ''" "''0''" 0 1 expense_1]
  have neg: "(- 1 :: real) < 0 \<or> (0 :: real) < 0" "(- 1 :: real) < 0" by simp_all
  have nn: "(0 :: real) \<le> 0" by simp
  from tn hsn neg have c1: "sales sample_float ?sn sample_db
     = (sample_db, [(''Could not save sale: Values must be non-negative.'', ''error'')],
        Redirect ''sales'')"
    by blast
  from tn hsn neg fs have c2: "edit_sale sample_float 1 ?sn sample_db
     = (sample_db, [(''Could not update sale: Values must be non-negative.'', ''error'')],
        SaleEditPage sale_1)"
    by blast
  from tn hen neg have c3: "expenses sample_float ?en sample_db
     = (sample_db, [(''Could not save expense: Amount must be non-negative.'', ''error'')],
        Redirect ''expenses'')"
    by blast
  from tn hen neg fe have c4: "edit_expense sample_float 1 ?en sample_db
     = (sample_db, [(''Could not update expense: Amount must be non-negative.'', ''error'')],
        ExpenseEditPage expense_1)"
    by blast
  from tz hsz ok nn have c5: "\<exists>r\<in>set (tbl_daily_sales (fst (sales sample_float ?sz sample_db))).
         sale_date r = (2024, 2, 3) \<and> total_sales r = 0 \<and> daily_profit r = 0"
    by blast
  from tz hsz ok nn fs own have c6: "edit_sale sample_float 1 ?sz sample_db =
                (sample_db\<lparr>tbl_daily_sales :=
                      map (\<lambda>r. if ds_id r = 1
                                then r\<lparr>sale_date := (2024, 2, 3), total_sales := 0,
                                        daily_profit := 0\<rparr>
                                else r)
                          (tbl_daily_sales sample_db)\<rparr>,
                 [(''Sale updated.'', ''success'')], Redirect ''sales'')"
    by blast
  from tz hez ok nn have c7: "expenses sample_float ?ez sample_db =
           (sample_db\<lparr>tbl_expenses := tbl_expenses sample_db @
                 [\<lparr>exp_id = next_id (map exp_id (tbl_expenses sample_db)),
                   expense_date = (2024, 2, 3),
                   description = py_strip '' ice '', amount = 0\<rparr>]\<rparr>,
            [(''Added expense.'', ''success'')], Redirect ''expenses'')"
    by blast
  from tz hez ok nn fe have c8: "edit_expense sample_float 1 ?ez sample_db =
                (sample_db\<lparr>tbl_expenses :=
                      map (\<lambda>r. if exp_id r = 1
                                then r\<lparr>expense_date := (2024, 2, 3),
                                        description := py_strip '' ice '', amount := 0\<rparr>
                                else r)
                          (tbl_expenses sample_db)\<rparr>,
                 [(''Expense updated.'', ''success'')], Redirect ''expenses'')"
    by blast
  have c6': "edit_sale sample_float 1 ?sz sample_db
     = (\<lparr>tbl_daily_sales = [sale_1\<lparr>total_sales := 0, daily_profit := 0\<rparr>, sale_2],
         tbl_expenses = [expense_1, expense_2]\<rparr>,
        [(''Sale updated.'', ''success'')], Redirect ''sales'')"
    unfolding c6 by (simp add: sample_db_def sale_1_def sale_2_def)
  have c7': "expenses sample_float ?ez sample_db
     = (\<lparr>tbl_daily_sales = [sale_1, sale_2],
         tbl_expenses = [expense_1, expense_2,
           \<lparr>exp_id = 3, expense_date = (2024, 2, 3), description = ''ice'', amount = 0\<rparr>]\<rparr>,
        [(''Added expense.'', ''success'')], Redirect ''expenses'')"
    unfolding c7 py_strip_ice
    by (simp add: sample_db_def expense_1_def expense_2_def next_id_def)
  have c8': "edit_expense sample_float 1 ?ez sample_db
     = (\<lparr>tbl_daily_sales = [sale_1, sale_2],
         tbl_expenses =
           [\<lparr>exp_id = 1, expense_date = (2024, 2, 3), description = ''ice'', amount = 0\<rparr>,
            expense_2]\<rparr>,
        [(''Expense updated.'', ''success'')], Redirect ''expenses'')"
    unfolding c8 py_strip_ice
    by (simp add: sample_db_def expense_1_def expense_2_def)
  from c1 c2 c3 c4 c5 c6' c7' c8' show ?thesis by (intro conjI)
qed

section \<open>Stripped descriptions\<close>

lemma last_dropWhile:
  "dropWhile P xs \<noteq> [] \<Longrightarrow> last (dropWhile P xs) = last xs"
  by (metis last_appendR takeWhile_dropWhile_id)

lemma trimmed_py_strip:
  assumes "py_strip s \<noteq> []"
  shows "trimmed (py_strip s)"
proof -
  let ?t = "dropWhile py_isspace s"
  let ?u = "dropWhile py_isspace (rev ?t)"
  from assms have u: "?u \<noteq> []" by (simp add: py_strip_def)
  have t: "?t \<noteq> []"
  proof
    assume "?t = []"
    then have "?u = []" by (simp only: rev.simps dropWhile.simps)
    with u show False by simp
  qed
  have "\<not> py_isspace (hd ?u)" using u by (rule hd_dropWhile)
  then have e: "\<not> py_isspace (last (rev ?u))" using u by (simp add: last_rev)
  have "last ?u = last (rev ?t)" using u by (rule last_dropWhile)
  also have "\<dots> = hd ?t" using t by (simp add: last_rev)
  finally have "hd (rev ?u) = hd ?t" using u by (simp add: hd_rev)
  moreover have "\<not> py_isspace (hd ?t)" using t by (rule hd_dropWhile)
  ultimately have b: "\<not> py_isspace (hd (rev ?u))" by simp
  from u b e show ?thesis by (simp add: trimmed_def py_strip_def)
qed

lemma sales_expenses_unchanged: "tbl_expenses (fst (sales pyfloat rq db)) = tbl_expenses db"
  by (auto simp: sales_def sales_try_def bind_exn_def commit_def
      split: sum.splits option.splits if_splits)

lemma edit_sale_expenses_unchanged:
  "tbl_expenses (fst (edit_sale pyfloat i rq db)) = tbl_expenses db"
  by (auto simp: edit_sale_def edit_sale_try_def bind_exn_def commit_def
      split: sum.splits option.splits if_splits)

lemma delete_sale_expenses_unchanged: "tbl_expenses (fst (delete_sale i db)) = tbl_expenses db"
  by (auto simp: delete_sale_def commit_def split: sum.splits option.splits if_splits)

lemma expenses_trimmed:
  assumes "\<forall>e\<in>set (tbl_expenses db). trimmed (description e)"
  shows "\<forall>e\<in>set (tbl_expenses (fst (expenses pyfloat rq db))). trimmed (description e)"
  using assms
  by (auto simp: expenses_def expenses_try_def bind_exn_def commit_def Let_def trimmed_py_strip
      split: sum.splits option.splits if_splits)

lemma edit_expense_trimmed:
  assumes "\<forall>e\<in>set (tbl_expenses db). trimmed (description e)"
  shows "\<forall>e\<in>set (tbl_expenses (fst (edit_expense pyfloat i rq db))). trimmed (description e)"
  using assms
  by (auto simp: edit_expense_def edit_expense_try_def bind_exn_def commit_def Let_def
      trimmed_py_strip split: sum.splits option.splits if_splits)

lemma delete_expense_trimmed:
  assumes "\<forall>e\<in>set (tbl_expenses db). trimmed (description e)"
  shows "\<forall>e\<in>set (tbl_expenses (fst (delete_expense i db))). trimmed (description e)"
  using assms
  by (auto simp: delete_expense_def commit_def split: sum.splits option.splits if_splits)

lemma step_trimmed:
  assumes "\<forall>e\<in>set (tbl_expenses db). trimmed (description e)"
  shows "\<forall>e\<in>set (tbl_expenses (step pyfloat db act)). trimmed (description e)"
proof (cases act)
  case (Sales rq)
  with assms show ?thesis by (simp add: sales_expenses_unchanged)
next
  case (EditSale i rq)
  with assms show ?thesis by (simp add: edit_sale_expenses_unchanged)
next
  case (DeleteSale i)
  with assms show ?thesis by (simp add: delete_sale_expenses_unchanged)
next
  case (Expenses rq)
  with expenses_trimmed[OF assms] show ?thesis by simp
next
  case (EditExpense i rq)
  with edit_expense_trimmed[OF assms] show ?thesis by simp
next
  case (DeleteExpense i)
  with delete_expense_trimmed[OF assms] show ?thesis by simp
qed

lemma run_trimmed:
  "\<forall>e\<in>set (tbl_expenses db). trimmed (description e) \<Longrightarrow>
   \<forall>e\<in>set (tbl_expenses (run pyfloat db acts)). trimmed (description e)"
  unfolding run_def
proof (induction acts arbitrary: db)
  case Nil
  then show ?case by simp
next
  case (Cons act acts)
  from Cons.prems
  have "\<forall>e\<in>set (tbl_expenses (step pyfloat db act)). trimmed (description e)"
    by (rule step_trimmed)
  then have "\<forall>e\<in>set (tbl_expenses (foldl (step pyfloat) (step pyfloat db act) acts)).
               trimmed (description e)"
    by (rule Cons.IH)
  then show ?case by simp
qed

lemma blank_description_unchanged:
  assumes "form rq ''description'' = Some raw" "py_strip raw = []"
  shows "fst (expenses pyfloat rq db) = db" "fst (edit_expense pyfloat i rq db) = db"
  using assms
  by (auto simp: expenses_def expenses_try_def edit_expense_def edit_expense_try_def
      form_get_def bind_exn_def Let_def split: sum.splits option.splits)

section \<open>Stored descriptions are stripped (claim C10)\<close>

text \<open>
  Claim C10. Every description stored by a run of requests from the empty database is
  trimmed: not empty, with no whitespace at either end. Each request keeps this. The
  cause: a posted expense and a posted edit store the stripped description
  \<open>py_strip raw\<close>, never the submitted text, and a description that strips to nothing
  is refused without a change.
\<close>

theorem stored_descriptions_trimmed:
  "(\<forall>e\<in>set (tbl_expenses (run pyfloat empty_db acts)). trimmed (description e))
   \<and> ((\<forall>e\<in>set (tbl_expenses db). trimmed (description e)) \<longrightarrow>
        (\<forall>e\<in>set (tbl_expenses (step pyfloat db act)). trimmed (description e)))
   \<and> (constraints_ok db \<and> rq_method rq = POST
        \<and> form rq ''expense_date'' = Some s \<and> parse_date s = Inr d
        \<and> form rq ''description'' = Some raw \<and> py_strip raw \<noteq> []
        \<and> form rq ''amount'' = Some a \<and> pyfloat a = Inr amt \<and> 0 \<le> amt \<longrightarrow>
        tbl_expenses (fst (expenses pyfloat rq db)) =
          tbl_expenses db @
            [\<lparr>exp_id = next_id (map exp_id (tbl_expenses db)), expense_date = d,
              description = py_strip raw, amount = amt\<rparr>]
        \<and> (find (\<lambda>r. exp_id r = expense_id) (tbl_expenses db) = Some row \<longrightarrow>
             tbl_expenses (fst (edit_expense pyfloat expense_id rq db)) =
               map (\<lambda>r. if exp_id r = expense_id
                         then r\<lparr>expense_date := d, description := py_strip raw, amount := amt\<rparr>
                         else r)
                   (tbl_expenses db)))
   \<and> (form rq ''description'' = Some raw \<and> py_strip raw = [] \<longrightarrow>
        fst (expenses pyfloat rq db) = db \<and> fst (edit_expense pyfloat expense_id rq db) = db)"
proof (intro conjI impI)
  show "\<forall>e\<in>set (tbl_expenses (run pyfloat empty_db acts)). trimmed (description e)"
    by (rule run_trimmed) (simp add: empty_db_def)
next
  assume "\<forall>e\<in>set (tbl_expenses db). trimmed (description e)"
  then show "\<forall>e\<in>set (tbl_expenses (step pyfloat db act)). trimmed (description e)"
    by (rule step_trimmed)
next
  assume h: "constraints_ok db \<and> rq_method rq = POST
        \<and> form rq ''expense_date'' = Some s \<and> parse_date s = Inr d
        \<and> form rq ''description'' = Some raw \<and> py_strip raw \<noteq> []
        \<and> form rq ''amount'' = Some a \<and> pyfloat a = Inr amt \<and> 0 \<le> amt"
  then have ok: "constraints_ok db" and p: "rq_method rq = POST"
    and f: "form rq ''expense_date'' = Some s" "parse_date s = Inr d"
      "form rq ''description'' = Some raw" "py_strip raw \<noteq> []"
      "form rq ''amount'' = Some a" "pyfloat a = Inr amt" "0 \<le> amt"
    by simp_all
  show "tbl_expenses (fst (expenses pyfloat rq db)) =
          tbl_expenses db @
            [\<lparr>exp_id = next_id (map exp_id (tbl_expenses db)), expense_date = d,
              description = py_strip raw, amount = amt\<rparr>]"
    by (simp add: expenses_accepted[where pyfloat = pyfloat, OF ok p f])
  {
    assume r: "find (\<lambda>r. exp_id r = expense_id) (tbl_expenses db) = Some row"
    show "tbl_expenses (fst (edit_expense pyfloat expense_id rq db)) =
               map (\<lambda>r. if exp_id r = expense_id
                         then r\<lparr>expense_date := d, description := py_strip raw, amount := amt\<rparr>
                         else r)
                   (tbl_expenses db)"
      by (simp add: edit_expense_accepted[where pyfloat = pyfloat, OF ok r p f])
  }
next
  assume "form rq ''description'' = Some raw \<and> py_strip raw = []"
  then have b: "form rq ''description'' = Some raw" "py_strip raw = []" by simp_all
  show "fst (expenses pyfloat rq db) = db" by (rule blank_description_unchanged[OF b])
  show "fst (edit_expense pyfloat expense_id rq db) = db"
    by (rule blank_description_unchanged[OF b])
qed


lemma py_strip_blank: "py_strip ''   '' = []"
  by code_simp

theorem stored_descriptions_trimmed_witness:
  "tbl_expenses (run sample_float empty_db
      [Expenses (post_request (expense_form ''2024-02-03'' '' ice '' ''0''))])
     = [\<lparr>exp_id = 1, expense_date = (2024, 2, 3), description = ''ice'', amount = 0\<rparr>]
   \<and> list_all (\<lambda>e. trimmed (description e))
        (tbl_expenses (run sample_float empty_db
           [Expenses (post_request (expense_form ''2024-02-03'' '' ice '' ''0''))]))
   \<and> trimmed ''ice''
   \<and> tbl_expenses (fst (edit_expense sample_float 1
         (post_request (expense_form ''2024-02-03'' '' ice '' ''0'')) sample_db))
     = [\<lparr>exp_id = 1, expense_date = (2024, 2, 3), description = ''ice'', amount = 0\<rparr>, expense_2]
   \<and> fst (expenses sample_float (post_request (expense_form ''2024-02-03'' ''   '' ''0''))
        sample_db) = sample_db"
proof -
  let ?rq = "post_request (expense_form ''2024-02-03'' '' ice '' ''0'')"
  let ?blank = "post_request (expense_form ''2024-02-03'' ''   '' ''0'')"
  let ?acts = "[Expenses ?rq]"
  have h0: "constraints_ok empty_db \<and> rq_method ?rq = POST
        \<and> form ?rq ''expense_date'' = Some ''2024-02-03''
        \<and> parse_date ''2024-02-03'' = Inr (2024, 2, 3)
        \<and> form ?rq ''description'' = Some '' ice '' \<and> py_strip '' ice '' \<noteq> []
        \<and> form ?rq ''amount'' = Some ''0'' \<and> sample_float ''0'' = Inr 0 \<and> (0::real) \<le> 0"
    using parse_date_2024_02_03 constraints_ok_empty
    by (simp add: post_request_def expense_form_def sample_float_def py_strip_ice)
  have h1: "constraints_ok sample_db \<and> rq_method ?rq = POST
        \<and> form ?rq ''expense_date'' = Some ''2024-02-03''
        \<and> parse_date ''2024-02-03'' = Inr (2024, 2, 3)
        \<and> form ?rq ''description'' = Some '' ice '' \<and> py_strip '' ice '' \<noteq> []
        \<and> form ?rq ''amount'' = Some ''0'' \<and> sample_float ''0'' = Inr 0 \<and> (0::real) \<le> 0"
    using parse_date_2024_02_03 constraints_ok_sample
    by (simp add: post_request_def expense_form_def sample_float_def py_strip_ice)
  have hb: "form ?blank ''description'' = Some ''   '' \<and> py_strip ''   '' = []"
    by (simp add: post_request_def expense_form_def py_strip_blank)
  note t0 = stored_descriptions_trimmed[of sample_float ?acts empty_db "Expenses ?rq" ?rq
      "''2024-02-03''" "(2024, 2, 3)" "'' ice ''" "''0''" 0 1 expense_1]
  note t1 = stored_descriptions_trimmed[of sample_float ?acts sample_db "Expenses ?rq" ?rq
      "''2024-02-03''" "(2024, 2, 3)" "'' ice ''" "''0''" 0 1 expense_1]
  note tb = stored_descriptions_trimmed[of sample_float ?acts sample_db "Expenses ?blank" ?blank
      "''2024-02-03''" "(2024, 2, 3)" "''   ''" "''0''" 0 1 expense_1]
  from t0 h0 have a: "tbl_expenses (fst (expenses sample_float ?rq empty_db)) =
          tbl_expenses empty_db @
            [\<lparr>exp_id = next_id (map exp_id (tbl_expenses empty_db)), expense_date = (2024, 2, 3),
              description = py_strip '' ice '', amount = 0\<rparr>]"
    by blast
  have a': "tbl_expenses (run sample_float empty_db ?acts)
     = [\<lparr>exp_id = 1, expense_date = (2024, 2, 3), description = ''ice'', amount = 0\<rparr>]"
    using a by (simp add: run_def py_strip_ice empty_db_def next_id_def)
  from t0 have b: "\<forall>e\<in>set (tbl_expenses (run sample_float empty_db ?acts)).
                     trimmed (description e)"
    by blast
  then have b': "list_all (\<lambda>e. trimmed (description e))
        (tbl_expenses (run sample_float empty_db ?acts))"
    by (simp add: list_all_iff)
  from b a' have c: "trimmed ''ice''" by simp
  from t1 h1 find_sample_expense_1
  have d: "tbl_expenses (fst (edit_expense sample_float 1 ?rq sample_db)) =
               map (\<lambda>r. if exp_id r = 1
                         then r\<lparr>expense_date := (2024, 2, 3), description := py_strip '' ice '',
                                 amount := 0\<rparr>
                         else r)
                   (tbl_expenses sample_db)"
    by blast
  have d': "tbl_expenses (fst (edit_expense sample_float 1 ?rq sample_db))
     = [\<lparr>exp_id = 1, expense_date = (2024, 2, 3), description = ''ice'', amount = 0\<rparr>, expense_2]"
    unfolding d py_strip_ice by (simp add: sample_db_def expense_1_def expense_2_def)
  from tb hb have e: "fst (expenses sample_float ?blank sample_db) = sample_db"
    by blast
  from a' b' c d' e show ?thesis by (intro conjI)
qed

section \<open>Writing decimal digits\<close>










section \<open>The month of a request\<close>




section \<open>Tokens that fall back (claim C6)\<close>





end
